theory Spec2Isabelle
  imports Main "HOL-Library.Sublist"
begin

section \<open>Python strings\<close>

text \<open>
  A Python \<open>str\<close> is modelled as a \<open>string\<close>; a \<open>char\<close> stands for one code point
  (those below 256). \<open>sub in s\<close> is \<open>sublist sub s\<close>, \<open>s.startswith(p)\<close> is
  \<open>prefix p s\<close> and \<open>s.endswith(p)\<close> is \<open>suffix p s\<close>.
\<close>

type_synonym pystr = string

text \<open>
  \<open>s.split(sep)\<close> for a separator given explicitly: the occurrences of \<open>sep\<close> are found
  from the left and do not overlap; the pieces between them are returned, the empty ones
  too. \<open>cur\<close> holds the characters of the current piece, last one first. Python raises
  ValueError for an empty separator; every separator of the program is a non-empty
  literal, and the model then returns the whole string as one piece.
\<close>

fun split_from :: "pystr \<Rightarrow> pystr \<Rightarrow> pystr \<Rightarrow> pystr list" where
  "split_from sep cur [] = [rev cur]"
| "split_from sep cur (c # cs) =
     (if sep \<noteq> [] \<and> prefix sep (c # cs)
      then rev cur # split_from sep [] (drop (length sep) (c # cs))
      else split_from sep (c # cur) cs)"

definition py_split :: "pystr \<Rightarrow> pystr \<Rightarrow> pystr list" where
  "py_split s sep = split_from sep [] s"

text \<open>
  \<open>str.isspace\<close> on one character, for the code points below 256: tab, line feed,
  vertical tab, form feed, carriage return, the four separators 0x1C to 0x1F, space,
  next line (0x85) and no-break space (0xA0).
\<close>

definition isspace :: "char \<Rightarrow> bool" where
  "isspace c = (of_char c \<in> {9, 10, 11, 12, 13, 28, 29, 30, 31, 32, 133, 160 :: nat})"

text \<open>\<open>s.strip()\<close>: the whitespace at both ends is removed.\<close>

definition strip :: "pystr \<Rightarrow> pystr" where
  "strip s = rev (dropWhile isspace (rev (dropWhile isspace s)))"

section \<open>Exceptions\<close>

text \<open>
  The exceptions the program meets, all of them subclasses of \<open>Exception\<close>:
  \<open>subprocess.CalledProcessError\<close> with the text of \<open>str(e)\<close> and the captured
  \<open>e.stderr\<close>; the \<open>IndexError\<close> of a list index out of range; any other one
  (an \<open>OSError\<close> of the file system, an error of the transcription client, the
  program's own \<open>Exception(...)\<close>) with the text of \<open>str(e)\<close>.
\<close>

datatype exn =
    CalledProcessError pystr pystr
  | IndexError
  | OtherException pystr

fun exn_str :: "exn \<Rightarrow> pystr" where
  "exn_str (CalledProcessError msg err) = msg"
| "exn_str IndexError = ''list index out of range''"
| "exn_str (OtherException msg) = msg"

text \<open>\<open>xs[1]\<close>: the second element, IndexError when there is none.\<close>

fun index1 :: "'a list \<Rightarrow> exn + 'a" where
  "index1 (x # y # ys) = Inr y"
| "index1 xs = Inl IndexError"

section \<open>Paths\<close>

text \<open>
  \<open>os.path.join(a, b)\<close> of posixpath: an absolute \<open>b\<close> replaces \<open>a\<close>; otherwise
  \<open>b\<close> is appended, after a slash unless \<open>a\<close> is empty or ends with one.
\<close>

definition path_join :: "pystr \<Rightarrow> pystr \<Rightarrow> pystr" where
  "path_join a b =
     (if prefix ''/'' b then b
      else if a = [] \<or> suffix ''/'' a then a @ b
      else a @ ''/'' @ b)"

section \<open>The fetcher\<close>

text \<open>
  What the operating system answers to the calls of \<open>download_audio_from_youtube\<close>:
  \<open>os.makedirs(path, exist_ok=True)\<close> succeeds or raises; \<open>subprocess.run(command,
  check=True, capture_output=True, text=True)\<close> returns the captured standard output or
  raises (CalledProcessError on a non-zero exit status); \<open>os.listdir(path)\<close> returns the
  names in the directory or raises; \<open>os.path.getmtime(path)\<close> returns the time of the last
  modification, of a linearly ordered type \<open>'t\<close>, or raises.
\<close>

record 't fetch_env =
  makedirs :: "pystr \<Rightarrow> exn option"
  run :: "pystr list \<Rightarrow> exn + pystr"
  listdir :: "pystr \<Rightarrow> exn + pystr list"
  getmtime :: "pystr \<Rightarrow> exn + 't"

text \<open>The yt-dlp command line (lines 28 to 39).\<close>

definition command :: "pystr \<Rightarrow> pystr \<Rightarrow> pystr \<Rightarrow> pystr \<Rightarrow> pystr list" where
  "command url output_path format quality =
     [''yt-dlp'', ''-x'', ''--audio-format'', format, ''--audio-quality'', quality,
      ''-o'', path_join output_path ''%(title)s.%(ext)s'', ''--no-playlist'', url]"

text \<open>
  The test of one line of the output (lines 53 and 57): the line holds the marker of
  the audio extraction, or the generic marker and ends with the extension.
\<close>

definition is_extract_line :: "pystr \<Rightarrow> bool" where
  "is_extract_line line = sublist ''[ExtractAudio] Destination:'' line"

definition is_generic_line :: "pystr \<Rightarrow> pystr \<Rightarrow> bool" where
  "is_generic_line format line =
     (sublist ''Destination:'' line \<and> suffix (''.'' @ format) line)"

text \<open>A destination line: a line on which one of the two tests holds.\<close>

definition is_destination_line :: "pystr \<Rightarrow> pystr \<Rightarrow> bool" where
  "is_destination_line format line = (is_extract_line line \<or> is_generic_line format line)"

text \<open>
  One pass through the body of the \<open>for\<close> loop (lines 53 to 59): \<open>None\<close> when neither
  test holds and the loop goes on to the next line; otherwise the value given to
  \<open>audio_file\<close> before the \<open>break\<close>, or the IndexError of \<open>[1]\<close>.
\<close>

definition visit_line :: "pystr \<Rightarrow> pystr \<Rightarrow> (exn + pystr) option" where
  "visit_line format line =
     (if is_extract_line line
      then Some (map_sum id strip (index1 (py_split line ''[ExtractAudio] Destination: '')))
      else if is_generic_line format line
      then Some (map_sum id strip (index1 (py_split line ''Destination: '')))
      else None)"

text \<open>
  The \<open>for\<close> loop over the lines (lines 52 to 59): \<open>None\<close> when the loop ends without
  \<open>break\<close>, so that its \<open>else\<close> branch runs.
\<close>

fun scan_lines :: "pystr \<Rightarrow> pystr list \<Rightarrow> (exn + pystr) option" where
  "scan_lines format [] = None"
| "scan_lines format (line # rest) =
     (case visit_line format line of
        Some r \<Rightarrow> Some r
      | None \<Rightarrow> scan_lines format rest)"

text \<open>
  The keys of \<open>audio_files.sort(key=..., reverse=True)\<close>: the key function is called on
  every element in order before anything is compared, and the first call that raises
  ends the sort.
\<close>

fun sort_keys :: "('a \<Rightarrow> exn + 't) \<Rightarrow> 'a list \<Rightarrow> exn + ('a \<times> 't) list" where
  "sort_keys key [] = Inr []"
| "sort_keys key (x # xs) =
     (case key x of
        Inl e \<Rightarrow> Inl e
      | Inr k \<Rightarrow> (case sort_keys key xs of Inl e \<Rightarrow> Inl e | Inr ys \<Rightarrow> Inr ((x, k) # ys)))"

text \<open>
  \<open>sort(reverse=True)\<close> is stable: elements with equal keys keep their order. CPython
  reverses the list, sorts it stably in ascending order and reverses the result.
\<close>

definition sort_reverse :: "('a \<times> 't::linorder) list \<Rightarrow> 'a list" where
  "sort_reverse xs = map fst (rev (sort_key snd (rev xs)))"

text \<open>The \<open>else\<close> branch of the loop (lines 62 to 68).\<close>

definition fallback :: "'t::linorder fetch_env \<Rightarrow> pystr \<Rightarrow> pystr \<Rightarrow> exn + pystr" where
  "fallback env output_path format =
     (case listdir env output_path of
        Inl e \<Rightarrow> Inl e
      | Inr names \<Rightarrow>
          (let audio_files = filter (suffix (''.'' @ format)) names in
           if audio_files \<noteq> [] then
             (case sort_keys (\<lambda>x. getmtime env (path_join output_path x)) audio_files of
                Inl e \<Rightarrow> Inl e
              | Inr keyed \<Rightarrow> Inr (path_join output_path (hd (sort_reverse keyed))))
           else Inl (OtherException
                  (''Could not find downloaded audio file with format '' @ format))))"

text \<open>
  The body of the \<open>try\<close> (lines 25 to 71): the value returned or the exception raised,
  with the lines printed up to there.
\<close>

definition download_body ::
  "'t::linorder fetch_env \<Rightarrow> pystr \<Rightarrow> pystr \<Rightarrow> pystr \<Rightarrow> pystr \<Rightarrow> (exn + pystr) \<times> pystr list" where
  "download_body env url output_path format quality =
     (case makedirs env output_path of
        Some e \<Rightarrow> (Inl e, [])
      | None \<Rightarrow>
          (let out1 = [''Downloading audio from: '' @ url] in
           case run env (command url output_path format quality) of
             Inl e \<Rightarrow> (Inl e, out1)
           | Inr stdout \<Rightarrow>
               (case (case scan_lines format (py_split stdout [CHR 0x0A]) of
                        Some r \<Rightarrow> r
                      | None \<Rightarrow> fallback env output_path format) of
                  Inl e \<Rightarrow> (Inl e, out1)
                | Inr audio_file \<Rightarrow>
                    (Inr audio_file,
                     out1 @ [''Audio downloaded successfully to: '' @ audio_file]))))"

text \<open>
  \<open>download_audio_from_youtube\<close> with its two handlers (lines 73 to 79): the value
  returned (\<open>None\<close> is Python's \<open>None\<close>) and the lines printed.
\<close>

definition download_audio_from_youtube ::
  "'t::linorder fetch_env \<Rightarrow> pystr \<Rightarrow> pystr \<Rightarrow> pystr \<Rightarrow> pystr \<Rightarrow> pystr option \<times> pystr list" where
  "download_audio_from_youtube env url output_path format quality =
     (case download_body env url output_path format quality of
        (Inr audio_file, out) \<Rightarrow> (Some audio_file, out)
      | (Inl (CalledProcessError msg err), out) \<Rightarrow>
          (None, out @ [''Error running yt-dlp: '' @ msg, ''Error output: '' @ err])
      | (Inl e, out) \<Rightarrow> (None, out @ [''Error downloading audio: '' @ exn_str e]))"

section \<open>The transcriber\<close>

text \<open>
  \<open>str.rfind\<close> of one character: the index of its last occurrence, \<open>-1\<close> when there is
  none.
\<close>

definition rfind :: "pystr \<Rightarrow> char \<Rightarrow> int" where
  "rfind p c =
     (if c \<in> set p
      then int (length p) - 1 - int (length (takeWhile (\<lambda>x. x \<noteq> c) (rev p)))
      else - 1)"

text \<open>
  The loop of \<open>genericpath._splitext\<close> that skips the leading dots of the file name:
  \<open>True\<close> when it returns from inside, at a character before the last dot that is not
  a dot.
\<close>

function skip_dots :: "pystr \<Rightarrow> int \<Rightarrow> int \<Rightarrow> bool" where
  "skip_dots p filenameIndex dotIndex =
     (if filenameIndex < dotIndex
      then (if take 1 (drop (nat filenameIndex) p) \<noteq> ''.'' then True
            else skip_dots p (filenameIndex + 1) dotIndex)
      else False)"
  by pat_completeness auto
termination
  by (relation "measure (\<lambda>(p, filenameIndex, dotIndex). nat (dotIndex - filenameIndex))") auto

declare skip_dots.simps [simp del]

text \<open>
  \<open>os.path.splitext(p)\<close> of posixpath: the extension starts at the last dot, when that dot
  comes after the last slash and after a character of the file name that is not a dot.
\<close>

definition splitext :: "pystr \<Rightarrow> pystr \<times> pystr" where
  "splitext p =
     (let sepIndex = rfind p CHR ''/''; dotIndex = rfind p CHR ''.'' in
      if dotIndex > sepIndex \<and> skip_dots p (sepIndex + 1) dotIndex
      then (take (nat dotIndex) p, drop (nat dotIndex) p)
      else (p, []))"

text \<open>Line 119.\<close>

definition transcript_path :: "pystr \<Rightarrow> pystr" where
  "transcript_path audio_file_path = fst (splitext audio_file_path) @ ''_transcript.json''"

text \<open>The options of the request (lines 94 to 100).\<close>

record prerecorded_options =
  model :: pystr
  language :: pystr
  smart_format :: bool
  paragraphs :: bool
  diarize :: bool

definition options :: prerecorded_options where
  "options = \<lparr>model = ''nova-3'', language = ''en'', smart_format = True,
     paragraphs = True, diarize = True\<rparr>"

text \<open>
  What the transcription client and the file system answer to the calls of
  \<open>transcribe_audio\<close>: \<open>DeepgramClient(api_key)\<close> succeeds or raises; so does
  \<open>open(path, "rb")\<close>; \<open>transcribe_file\<close>, for a key, an audio file and the options,
  returns a response of type \<open>'r\<close> or raises (network, authentication, malformed response);
  \<open>response.to_json(indent=4)\<close> returns the text or raises; \<open>open(path, "w")\<close> succeeds,
  leaving the file empty, or raises; writing a text to a file succeeds, or raises after part
  of the text has reached the file.
\<close>

record 'r transcribe_env =
  new_client :: "pystr \<Rightarrow> exn option"
  open_rb :: "pystr \<Rightarrow> exn option"
  transcribe_file :: "pystr \<Rightarrow> pystr \<Rightarrow> prerecorded_options \<Rightarrow> exn + 'r"
  to_json :: "'r \<Rightarrow> exn + pystr"
  open_w :: "pystr \<Rightarrow> exn option"
  write_w :: "pystr \<Rightarrow> pystr \<Rightarrow> (exn \<times> pystr) option"

text \<open>
  What the program leaves behind: the text of each \<open>print\<close> call in order, the content of
  the files, and the number of requests made to the transcription service.
\<close>

record world =
  printed :: "pystr list"
  files :: "pystr \<rightharpoonup> pystr"
  requests :: nat

definition print :: "pystr \<Rightarrow> world \<Rightarrow> world" where
  "print s w = w\<lparr>printed := printed w @ [s]\<rparr>"

text \<open>
  The body of the \<open>try\<close> of \<open>transcribe_audio\<close> (lines 91 to 123): the exception raised,
  if any, and the world left.
\<close>

definition transcribe_body ::
  "'r transcribe_env \<Rightarrow> pystr \<Rightarrow> pystr \<Rightarrow> world \<Rightarrow> exn option \<times> world" where
  "transcribe_body env audio_file_path api_key w =
     (case new_client env api_key of
        Some e \<Rightarrow> (Some e, w)
      | None \<Rightarrow>
     (case open_rb env audio_file_path of
        Some e \<Rightarrow> (Some e, w)
      | None \<Rightarrow>
     (let w1 = w\<lparr>requests := requests w + 1\<rparr> in
      case transcribe_file env api_key audio_file_path options of
        Inl e \<Rightarrow> (Some e, w1)
      | Inr response \<Rightarrow>
     (let w2 = print (CHR 0x0A # ''Transcription Results:'') w1 in
      case to_json env response of
        Inl e \<Rightarrow> (Some e, w2)
      | Inr text \<Rightarrow>
     (let w3 = print text w2 in
      case open_w env (transcript_path audio_file_path) of
        Some e \<Rightarrow> (Some e, w3)
      | None \<Rightarrow>
     (case write_w env (transcript_path audio_file_path) text of
        Some (e, part) \<Rightarrow>
          (Some e, w3\<lparr>files := (files w3)(transcript_path audio_file_path \<mapsto> part)\<rparr>)
      | None \<Rightarrow>
          (None,
           print (''Transcript saved to: '' @ transcript_path audio_file_path)
             (w3\<lparr>files := (files w3)(transcript_path audio_file_path \<mapsto> text)\<rparr>))))))))"

text \<open>\<open>transcribe_audio\<close> with its handler (lines 125 and 126).\<close>

definition transcribe_audio :: "'r transcribe_env \<Rightarrow> pystr \<Rightarrow> pystr \<Rightarrow> world \<Rightarrow> world" where
  "transcribe_audio env audio_file_path api_key w =
     (case transcribe_body env audio_file_path api_key w of
        (None, w') \<Rightarrow> w'
      | (Some e, w') \<Rightarrow> print (''Error during transcription: '' @ exn_str e) w')"

section \<open>The command line\<close>

text \<open>The arguments as argparse returns them (lines 130 to 139).\<close>

datatype audio_format = MP3 | M4A | FLAC | WAV | OPUS

fun format_str :: "audio_format \<Rightarrow> pystr" where
  "format_str MP3 = ''mp3''"
| "format_str M4A = ''m4a''"
| "format_str FLAC = ''flac''"
| "format_str WAV = ''wav''"
| "format_str OPUS = ''opus''"

record args =
  url :: pystr
  "output" :: pystr
  transcribe :: bool
  format :: audio_format
  quality :: pystr

text \<open>
  \<open>print(x)\<close> of a value that is a string or \<open>None\<close>, and Python's truth value of such a
  value: \<open>None\<close> and the empty string are false.
\<close>

fun str_of :: "pystr option \<Rightarrow> pystr" where
  "str_of None = ''None''"
| "str_of (Some s) = s"

fun truthy :: "pystr option \<Rightarrow> bool" where
  "truthy None = False"
| "truthy (Some s) = (s \<noteq> [])"

text \<open>
  \<open>main\<close> (lines 142 to 152); \<open>getenv\<close> is \<open>os.getenv\<close>, the environment of the process
  after \<open>load_dotenv()\<close>.
\<close>

definition main ::
  "args \<Rightarrow> 't::linorder fetch_env \<Rightarrow> 'r transcribe_env \<Rightarrow> (pystr \<Rightarrow> pystr option) \<Rightarrow> world \<Rightarrow> world" where
  "main a fenv tenv getenv w =
     (case download_audio_from_youtube fenv (url a) (output a) (format_str (format a)) (quality a) of
        (audio_file, out) \<Rightarrow>
          (let w1 = w\<lparr>printed := printed w @ out\<rparr> in
           if transcribe a \<and> truthy audio_file then
             (let api_key = getenv ''DEEPGRAM_API_KEY'';
                  w2 = print (str_of api_key) w1 in
              if \<not> truthy api_key then
                print (''Please set it using: export DEEPGRAM_API_KEY='' @ [CHR 0x27] @ ''your-api-key'' @ [CHR 0x27])
                  (print ''Error: DEEPGRAM_API_KEY environment variable is required for transcription.'' w2)
              else transcribe_audio tenv (the audio_file) (the api_key) w2)
           else w1))"

section \<open>Example runs\<close>

text \<open>
  A run in which every call of the operating system succeeds: the downloader prints
  \<open>stdout\<close>, the output directory holds \<open>names\<close>, and the file at a path was last
  modified at \<open>mtime path\<close>.
\<close>

definition example_env :: "pystr \<Rightarrow> pystr list \<Rightarrow> (pystr \<Rightarrow> int) \<Rightarrow> int fetch_env" where
  "example_env stdout names mtime =
     \<lparr>makedirs = (\<lambda>_. None), run = (\<lambda>_. Inr stdout), listdir = (\<lambda>_. Inr names),
      getmtime = (\<lambda>path. Inr (mtime path))\<rparr>"

text \<open>
  The downloader's output of a run whose first destination line carries the generic marker
  with no space after the colon, and the line in question.
\<close>

definition stdout_generic_no_space :: pystr where
  "stdout_generic_no_space =
     ''[youtube] Extracting URL\<newline>[download] Destination:./a.wav\<newline>[ExtractAudio] Destination: ./a.wav''"

definition line_generic_no_space :: pystr where
  "line_generic_no_space = ''[download] Destination:./a.wav''"

text \<open>
  The downloader's output of a run that prints no destination line.
\<close>

definition stdout_no_destination :: pystr where
  "stdout_no_destination = ''[youtube] Extracting URL\<newline>[download] 100% of 3.00MiB''"

text \<open>
  An output directory with two files of the format asked for and two others, and the times of their last modification: of the two, \<open>new.wav\<close> is the newer.
\<close>

definition names_mixed :: "pystr list" where
  "names_mixed = [''old.wav'', ''notes.txt'', ''new.wav'', ''newer.mp3'']"

definition mtime_by_path :: "pystr \<Rightarrow> int" where
  "mtime_by_path path =
     (if path = ''./new.wav'' then 20 else if path = ''./newer.mp3'' then 30 else 10)"

text \<open>
  The arguments of \<open>prog -t https://youtu.be/x\<close>: the defaults and the transcription asked for.
\<close>

definition example_args :: args where
  "example_args = \<lparr>url = ''https://youtu.be/x'', output = ''./'', transcribe = True,
     format = WAV, quality = ''0''\<rparr>"

text \<open>
  The downloader's output of a run whose first destination line names a file outside the output directory, of another format, and the line in question.
\<close>

definition stdout_elsewhere :: pystr where
  "stdout_elsewhere =
     ''[youtube] Extracting URL\<newline>[ExtractAudio] Destination: /elsewhere/song.mp3\<newline>[ExtractAudio] Destination: ./a.wav''"

definition line_elsewhere :: pystr where
  "line_elsewhere = ''[ExtractAudio] Destination: /elsewhere/song.mp3''"

text \<open>
  A transcription service whose request ends with \<open>result\<close>, the response being its own JSON text, on a file system where every call succeeds.
\<close>

definition example_tenv :: "(exn + pystr) \<Rightarrow> pystr transcribe_env" where
  "example_tenv result =
     \<lparr>new_client = (\<lambda>_. None), open_rb = (\<lambda>_. None),
      transcribe_file = (\<lambda>_ _ _. result), to_json = (\<lambda>r. Inr r),
      open_w = (\<lambda>_. None), write_w = (\<lambda>_ _. None)\<rparr>"

text \<open>
  The world before the run: nothing printed, the audio file on disk, no request made.
\<close>

definition example_world :: world where
  "example_world = \<lparr>printed = [], files = [''./Test Clip.wav'' \<mapsto> ''RIFF''], requests = 0\<rparr>"

text \<open>
  The downloader's output of a run with two destination lines, and the first of them.
\<close>

definition stdout_test_clip :: pystr where
  "stdout_test_clip =
     ''[youtube] Extracting URL\<newline>[ExtractAudio] Destination: ./Test Clip.wav\<newline>[ExtractAudio] Destination: ./Other.wav''"

definition line_test_clip :: pystr where
  "line_test_clip = ''[ExtractAudio] Destination: ./Test Clip.wav''"

text \<open>
  An environment without the credential, and one that holds it.
\<close>

definition no_credential :: "pystr \<Rightarrow> pystr option" where
  "no_credential name = None"

definition with_credential :: "pystr \<Rightarrow> pystr option" where
  "with_credential name = (if name = ''DEEPGRAM_API_KEY'' then Some ''secret-key'' else None)"

text \<open>
  A run in which the downloader exits with a non-zero status.
\<close>

definition failing_env :: "int fetch_env" where
  "failing_env =
     \<lparr>makedirs = (\<lambda>_. None),
      run = (\<lambda>_. Inl (CalledProcessError ''Command returned non-zero exit status 1.''
                      ''ERROR: Video unavailable'')),
      listdir = (\<lambda>_. Inr []), getmtime = (\<lambda>_. Inr 0)\<rparr>"

section \<open>Splitting and scanning\<close>

lemma split_from_not_Nil: "split_from sep cur s \<noteq> []"
  by (induction sep cur s rule: split_from.induct) auto

lemma split_from_no_sep: "\<not> sublist sep s \<Longrightarrow> split_from sep cur s = [rev cur @ s]"
proof (induction s arbitrary: cur)
  case Nil
  then show ?case by simp
next
  case (Cons c cs)
  then have "\<not> prefix sep (c # cs)" and "\<not> sublist sep cs"
    by (auto simp: sublist_Cons_right)
  with Cons.IH [of "c # cur"] show ?case by simp
qed

lemma index1_no_sep: "\<not> sublist sep s \<Longrightarrow> index1 (py_split s sep) = Inl IndexError"
  by (simp add: py_split_def split_from_no_sep)

lemma visit_line_None: "visit_line fmt l = None \<longleftrightarrow> \<not> is_destination_line fmt l"
  by (simp add: visit_line_def is_destination_line_def)

text \<open>The loop stops at the first destination line and returns what its body gives there.\<close>

lemma scan_lines_find:
  "scan_lines fmt ls =
     (case find (is_destination_line fmt) ls of None \<Rightarrow> None | Some l \<Rightarrow> visit_line fmt l)"
proof (induction ls)
  case Nil
  then show ?case by simp
next
  case (Cons l ls)
  show ?case
  proof (cases "is_destination_line fmt l")
    case True
    then obtain r where "visit_line fmt l = Some r"
      using visit_line_None [of fmt l] by (cases "visit_line fmt l") auto
    with True show ?thesis by simp
  next
    case False
    then have "visit_line fmt l = None" by (simp add: visit_line_None)
    with False Cons.IH show ?thesis by simp
  qed
qed

lemma visit_line_Some: "visit_line fmt l = Some r \<Longrightarrow> is_destination_line fmt l"
  using visit_line_None [of fmt l] by simp

lemma scan_lines_None:
  "scan_lines fmt ls = None \<longleftrightarrow> (\<forall>l \<in> set ls. \<not> is_destination_line fmt l)"
  by (induction ls) (auto simp: visit_line_None dest: visit_line_Some split: option.splits)

lemma split_from_pieces: "x \<in> set (split_from sep cur s) \<Longrightarrow> sublist x (rev cur @ s)"
proof (induction sep cur s arbitrary: x rule: split_from.induct)
  case (1 sep cur)
  then show ?case by simp
next
  case (2 sep cur c cs)
  show ?case
  proof (cases "sep \<noteq> [] \<and> prefix sep (c # cs)")
    case True
    with 2(3) have "x = rev cur \<or> x \<in> set (split_from sep [] (drop (length sep) (c # cs)))"
      by auto
    then show ?thesis
    proof
      assume "x = rev cur"
      then show ?thesis by simp
    next
      assume "x \<in> set (split_from sep [] (drop (length sep) (c # cs)))"
      with 2(1) True have "sublist x (drop (length sep) (c # cs))" by auto
      then obtain ps ss where "drop (length sep) (c # cs) = ps @ x @ ss"
        by (auto simp: sublist_def)
      then have "rev cur @ c # cs = (rev cur @ take (length sep) (c # cs) @ ps) @ x @ ss"
        by (metis append.assoc append_take_drop_id)
      then show ?thesis unfolding sublist_def by blast
    qed
  next
    case False
    with 2(3) have "x \<in> set (split_from sep (c # cur) cs)" by auto
    with 2(2) False have "sublist x (rev (c # cur) @ cs)" by blast
    then show ?thesis by simp
  qed
qed

lemma py_split_pieces: "x \<in> set (py_split s sep) \<Longrightarrow> sublist x s"
  using split_from_pieces [of x sep "[]" s] by (simp add: py_split_def)

lemma sublist_strip: "sublist (strip s) s"
proof -
  have "suffix (dropWhile isspace s) s" by (rule suffix_dropWhile)
  moreover have "prefix (strip s) (dropWhile isspace s)"
    unfolding strip_def
    by (metis prefix_def rev_append rev_rev_ident suffix_def suffix_dropWhile)
  ultimately show ?thesis by (meson sublist_altdef')
qed

lemma index1_Inr: "index1 xs = Inr b \<Longrightarrow> \<exists>a rest. xs = a # b # rest"
  by (cases xs rule: index1.cases) auto

lemma visit_line_Inr:
  assumes "visit_line fmt line = Some (Inr p)"
  shows "\<exists>b. index1 (py_split line (if is_extract_line line then ''[ExtractAudio] Destination: ''
                   else ''Destination: '')) = Inr b \<and> p = strip b"
proof (cases "is_extract_line line")
  case True
  with assms have "map_sum id strip (index1 (py_split line ''[ExtractAudio] Destination: '')) = Inr p"
    by (simp add: visit_line_def)
  then obtain b where "index1 (py_split line ''[ExtractAudio] Destination: '') = Inr b" and "p = strip b"
    by (cases "index1 (py_split line ''[ExtractAudio] Destination: '')") auto
  with True show ?thesis by simp
next
  case False
  with assms have "map_sum id strip (index1 (py_split line ''Destination: '')) = Inr p"
    by (simp add: visit_line_def split: if_splits)
  then obtain b where "index1 (py_split line ''Destination: '') = Inr b" and "p = strip b"
    by (cases "index1 (py_split line ''Destination: '')") auto
  with False show ?thesis by simp
qed

section \<open>Sorting newest first\<close>

lemma last_filter_last: "P (last xs) \<Longrightarrow> xs \<noteq> [] \<Longrightarrow> last (filter P xs) = last xs"
  by (induction xs rule: rev_induct) auto

lemma sort_keys_Inr: "sort_keys key xs = Inr keyed \<Longrightarrow> map fst keyed = xs"
  by (induction xs arbitrary: keyed) (auto split: sum.splits)

lemma sort_keys_all:
  "\<forall>x \<in> set xs. key x = Inr (m x) \<Longrightarrow> sort_keys key xs = Inr (map (\<lambda>x. (x, m x)) xs)"
  by (induction xs) auto

lemma set_sort_reverse: "set (sort_reverse keyed) = fst ` set keyed"
  by (simp add: sort_reverse_def)

lemma sort_reverse_Nil: "sort_reverse keyed = [] \<longleftrightarrow> keyed = []"
  unfolding sort_reverse_def by (metis length_sort length_0_conv length_rev length_map)

lemma hd_sort_reverse_mem: "keyed \<noteq> [] \<Longrightarrow> hd (sort_reverse keyed) \<in> fst ` set keyed"
  using hd_in_set [of "sort_reverse keyed"] by (simp add: sort_reverse_Nil set_sort_reverse)

lemma sorted_le_last:
  fixes zs :: "'a::linorder list"
  assumes "sorted zs" and "z \<in> set zs"
  shows "z \<le> last zs"
proof -
  from assms(2) have "zs \<noteq> []" by auto
  then have "zs = butlast zs @ [last zs]" by simp
  then have "sorted (butlast zs @ [last zs])" using assms(1) by simp
  then have "\<forall>x \<in> set (butlast zs). x \<le> last zs" by (simp add: sorted_append)
  moreover from assms(2) \<open>zs \<noteq> []\<close> have "z \<in> set (butlast zs) \<or> z = last zs"
    by (metis \<open>zs = butlast zs @ [last zs]\<close> Un_iff empty_iff insert_iff list.set(1) list.set(2) set_append)
  ultimately show ?thesis by auto
qed

text \<open>The head of the list sorted newest first: the first of the elements with the greatest key.\<close>

lemma hd_sort_reverse:
  fixes m :: "'a \<Rightarrow> 't::linorder"
  assumes "xs \<noteq> []"
  shows "\<exists>before f after. xs = before @ f # after \<and>
    hd (sort_reverse (map (\<lambda>x. (x, m x)) xs)) = f \<and>
    (\<forall>g \<in> set before. m g < m f) \<and> (\<forall>g \<in> set after. m g \<le> m f)"
proof -
  define zs where "zs = map (\<lambda>x. (x, m x)) xs"
  define ys where "ys = sort_key snd (rev zs)"
  define k where "k = snd (last ys)"
  have ys_ne: "ys \<noteq> []"
    using assms unfolding ys_def zs_def
    by (metis length_sort length_0_conv length_rev length_map)
  have hd_eq: "hd (sort_reverse zs) = fst (last ys)"
    using ys_ne by (simp add: sort_reverse_def ys_def hd_map hd_rev)
  have max: "m x \<le> k" if "x \<in> set xs" for x
  proof -
    from that have "m x \<in> set (map snd ys)" by (force simp: ys_def zs_def)
    moreover have "sorted (map snd ys)" unfolding ys_def by (rule sorted_sort_key)
    ultimately have "m x \<le> last (map snd ys)" by (rule sorted_le_last [rotated])
    then show ?thesis using ys_ne by (simp add: last_map k_def)
  qed
  have "last (filter (\<lambda>y. snd y = k) ys) = last ys"
    using ys_ne by (intro last_filter_last) (simp_all add: k_def)
  moreover have "filter (\<lambda>y. snd y = k) ys = filter (\<lambda>y. snd y = k) (rev zs)"
    unfolding ys_def by (rule sort_key_stable)
  moreover have "filter (\<lambda>y. snd y = k) (rev zs) = rev (filter (\<lambda>y. snd y = k) zs)"
    by (simp add: rev_filter)
  ultimately have last_eq: "last ys = last (rev (filter (\<lambda>y. snd y = k) zs))"
    by simp
  have "last ys \<in> set ys" using ys_ne by (rule last_in_set)
  then have "last ys \<in> set zs" by (simp add: ys_def)
  then obtain x where x: "x \<in> set xs" "m x = k"
    by (auto simp: zs_def k_def)
  then obtain before f after where
    split: "xs = before @ f # after" and f: "m f = k" and b: "\<forall>g \<in> set before. m g \<noteq> k"
    using split_list_first_prop [of xs "\<lambda>x. m x = k"] by blast
  have "filter (\<lambda>y. snd y = k) zs = map (\<lambda>x. (x, m x)) (filter (\<lambda>x. m x = k) xs)"
    by (simp add: zs_def filter_map comp_def)
  also have "filter (\<lambda>x. m x = k) xs = f # filter (\<lambda>x. m x = k) after"
    using split f b by (simp add: filter_empty_conv)
  finally have "filter (\<lambda>y. snd y = k) zs = (f, m f) # map (\<lambda>x. (x, m x)) (filter (\<lambda>x. m x = k) after)"
    by simp
  with last_eq have "last ys = (f, m f)" by (simp add: last_rev)
  with hd_eq have "hd (sort_reverse zs) = f" by simp
  moreover have "\<forall>g \<in> set before. m g < m f"
  proof
    fix g assume g: "g \<in> set before"
    then have "g \<in> set xs" using split by simp
    then have "m g \<le> k" by (rule max)
    moreover from g b have "m g \<noteq> k" by blast
    ultimately show "m g < m f" using f by simp
  qed
  moreover have "\<forall>g \<in> set after. m g \<le> m f"
    using max split f by simp
  ultimately show ?thesis using split unfolding zs_def by blast
qed

section \<open>The fetcher: results\<close>

lemma download_raise:
  assumes "makedirs env d = None" and "run env (command u d fmt q) = Inr stdout"
    and "scan_lines fmt (py_split stdout [CHR 0x0A]) = Some (Inl IndexError)"
  shows "download_audio_from_youtube env u d fmt q =
    (None, [''Downloading audio from: '' @ u,
            ''Error downloading audio: list index out of range''])"
  using assms by (simp add: download_audio_from_youtube_def download_body_def)

lemma download_body_run_ok:
  assumes "makedirs env d = None" and "run env (command u d fmt q) = Inr stdout"
  shows "download_body env u d fmt q =
    (case (case scan_lines fmt (py_split stdout [CHR 0x0A]) of
             Some r \<Rightarrow> r | None \<Rightarrow> fallback env d fmt) of
       Inl e \<Rightarrow> (Inl e, [''Downloading audio from: '' @ u])
     | Inr p \<Rightarrow> (Inr p, [''Downloading audio from: '' @ u,
                          ''Audio downloaded successfully to: '' @ p]))"
  using assms by (simp add: download_body_def split: sum.splits)

lemma download_resolved:
  assumes "makedirs env d = None" and "run env (command u d fmt q) = Inr stdout"
    and "(case scan_lines fmt (py_split stdout [CHR 0x0A]) of
            Some r \<Rightarrow> r | None \<Rightarrow> fallback env d fmt) = Inr p"
  shows "download_audio_from_youtube env u d fmt q =
    (Some p, [''Downloading audio from: '' @ u, ''Audio downloaded successfully to: '' @ p])"
  using assms(3)
  by (simp add: download_audio_from_youtube_def download_body_run_ok [OF assms(1,2)])

lemma download_unresolved:
  assumes "makedirs env d = None" and "run env (command u d fmt q) = Inr stdout"
    and "(case scan_lines fmt (py_split stdout [CHR 0x0A]) of
            Some r \<Rightarrow> r | None \<Rightarrow> fallback env d fmt) = Inl (OtherException msg)"
  shows "download_audio_from_youtube env u d fmt q =
    (None, [''Downloading audio from: '' @ u, ''Error downloading audio: '' @ msg])"
  using assms(3)
  by (simp add: download_audio_from_youtube_def download_body_run_ok [OF assms(1,2)])

lemma download_Some_resolved:
  assumes "makedirs env d = None" and "run env (command u d fmt q) = Inr stdout"
    and "fst (download_audio_from_youtube env u d fmt q) = Some p"
  shows "(case scan_lines fmt (py_split stdout [CHR 0x0A]) of
            Some r \<Rightarrow> r | None \<Rightarrow> fallback env d fmt) = Inr p"
  using assms(3)
  by (simp add: download_audio_from_youtube_def download_body_run_ok [OF assms(1,2)]
      split: sum.splits exn.splits)

lemma fallback_no_file:
  assumes "listdir env d = Inr names" and "filter (suffix (''.'' @ fmt)) names = []"
  shows "fallback env d fmt =
    Inl (OtherException (''Could not find downloaded audio file with format '' @ fmt))"
  using assms by (simp add: fallback_def)

lemma fallback_newest:
  assumes "listdir env d = Inr names" and "filter (suffix (''.'' @ fmt)) names \<noteq> []"
    and "\<forall>f \<in> set names. suffix (''.'' @ fmt) f \<longrightarrow> getmtime env (path_join d f) = Inr (mtime f)"
  shows "\<exists>before f after. filter (suffix (''.'' @ fmt)) names = before @ f # after \<and>
    (\<forall>g \<in> set before. mtime g < mtime f) \<and> (\<forall>g \<in> set after. mtime g \<le> mtime f) \<and>
    fallback env d fmt = Inr (path_join d f)"
proof -
  let ?files = "filter (suffix (''.'' @ fmt)) names"
  from assms(3) have "\<forall>x \<in> set ?files. getmtime env (path_join d x) = Inr (mtime x)"
    by simp
  then have keys: "sort_keys (\<lambda>x. getmtime env (path_join d x)) ?files =
      Inr (map (\<lambda>x. (x, mtime x)) ?files)"
    by (rule sort_keys_all)
  obtain before f after where split: "?files = before @ f # after"
    and hd: "hd (sort_reverse (map (\<lambda>x. (x, mtime x)) ?files)) = f"
    and older: "\<forall>g \<in> set before. mtime g < mtime f" "\<forall>g \<in> set after. mtime g \<le> mtime f"
    using hd_sort_reverse [OF assms(2), of mtime] by blast
  have "fallback env d fmt = Inr (path_join d f)"
    using assms(1,2) keys hd by (simp add: fallback_def)
  with split older show ?thesis by blast
qed

lemma fallback_Inr:
  assumes "fallback env d fmt = Inr p"
  shows "\<exists>names f. listdir env d = Inr names \<and> f \<in> set names \<and> suffix (''.'' @ fmt) f \<and>
    p = path_join d f"
proof -
  from assms obtain names where names: "listdir env d = Inr names"
    by (auto simp: fallback_def split: sum.splits)
  let ?files = "filter (suffix (''.'' @ fmt)) names"
  from assms names have ne: "?files \<noteq> []"
    by (auto simp: fallback_def split: if_splits)
  with assms names obtain keyed where
    keyed: "sort_keys (\<lambda>x. getmtime env (path_join d x)) ?files = Inr keyed"
    and p: "p = path_join d (hd (sort_reverse keyed))"
    by (auto simp: fallback_def split: sum.splits)
  from keyed have fst: "map fst keyed = ?files" by (rule sort_keys_Inr)
  with ne have "keyed \<noteq> []" by auto
  then have "hd (sort_reverse keyed) \<in> fst ` set keyed" by (rule hd_sort_reverse_mem)
  also have "fst ` set keyed = set ?files" using fst by (metis set_map)
  finally have "hd (sort_reverse keyed) \<in> set names \<and> suffix (''.'' @ fmt) (hd (sort_reverse keyed))"
    by simp
  with names p show ?thesis by blast
qed

lemma download_env_irrelevant:
  assumes "makedirs env d = None" and "run env (command u d fmt q) = Inr stdout"
    and "scan_lines fmt (py_split stdout [CHR 0x0A]) = Some r"
  shows "download_audio_from_youtube (env\<lparr>listdir := l, getmtime := g\<rparr>) u d fmt q =
    download_audio_from_youtube env u d fmt q"
proof -
  have "download_body (env\<lparr>listdir := l, getmtime := g\<rparr>) u d fmt q = download_body env u d fmt q"
    using assms by (simp add: download_body_def)
  then show ?thesis by (simp only: download_audio_from_youtube_def)
qed

lemma fallback_path_in_directory:
  assumes m: "makedirs env d = None" and r: "run env (command u d fmt q) = Inr stdout"
    and f: "find (is_destination_line fmt) (py_split stdout [CHR 0x0A]) = None"
    and s: "fst (download_audio_from_youtube env u d fmt q) = Some p"
  shows "\<exists>names f. listdir env d = Inr names \<and> f \<in> set names \<and> suffix (''.'' @ fmt) f \<and>
         p = path_join d f"
proof -
  from f have "scan_lines fmt (py_split stdout [CHR 0x0A]) = None"
    by (simp add: scan_lines_find)
  moreover have "(case scan_lines fmt (py_split stdout [CHR 0x0A]) of
            Some r \<Rightarrow> r | None \<Rightarrow> fallback env d fmt) = Inr p"
    by (rule download_Some_resolved [OF m r s])
  ultimately have "fallback env d fmt = Inr p" by simp
  then show ?thesis by (rule fallback_Inr)
qed

lemma destination_path_verbatim:
  assumes m: "makedirs env d = None" and r: "run env (command u d fmt q) = Inr stdout"
    and f: "find (is_destination_line fmt) (py_split stdout [CHR 0x0A]) = Some line"
    and s: "fst (download_audio_from_youtube env u d fmt q) = Some p"
  shows "(\<exists>a b rest.
         py_split line (if is_extract_line line then ''[ExtractAudio] Destination: ''
                        else ''Destination: '') = a # b # rest \<and> p = strip b) \<and>
      sublist p stdout \<and>
      (\<forall>l g. fst (download_audio_from_youtube (env\<lparr>listdir := l, getmtime := g\<rparr>) u d fmt q) =
         Some p)"
proof -
  define sep where
    "sep = (if is_extract_line line then ''[ExtractAudio] Destination: '' else ''Destination: '')"
  from f have scan: "scan_lines fmt (py_split stdout [CHR 0x0A]) = visit_line fmt line"
    by (simp add: scan_lines_find)
  from f have dest: "is_destination_line fmt line"
    by (simp add: find_Some_iff) blast
  from f have mem: "line \<in> set (py_split stdout [CHR 0x0A])"
    by (simp add: find_Some_iff) (metis nth_mem)
  from dest obtain r' where r': "visit_line fmt line = Some r'"
    using visit_line_None [of fmt line] by (cases "visit_line fmt line") simp_all
  have "(case scan_lines fmt (py_split stdout [CHR 0x0A]) of
            Some r \<Rightarrow> r | None \<Rightarrow> fallback env d fmt) = Inr p"
    by (rule download_Some_resolved [OF m r s])
  with scan r' have visit: "visit_line fmt line = Some (Inr p)" by simp
  from visit_line_Inr [OF visit] obtain b where ix: "index1 (py_split line sep) = Inr b"
    and p: "p = strip b"
    unfolding sep_def by (elim exE conjE)
  from index1_Inr [OF ix] obtain a rest where pieces: "py_split line sep = a # b # rest"
    by (elim exE)
  have "b \<in> set (py_split line sep)"
    unfolding pieces by simp
  then have "sublist b line" by (rule py_split_pieces)
  moreover have "sublist p b" unfolding p by (rule sublist_strip)
  ultimately have "sublist p line" by (rule sublist_order.order_trans [rotated])
  moreover from mem have "sublist line stdout" by (rule py_split_pieces)
  ultimately have sub: "sublist p stdout" by (rule sublist_order.order_trans)
  from scan visit have sc: "scan_lines fmt (py_split stdout [CHR 0x0A]) = Some (Inr p)"
    by simp
  have indep: "fst (download_audio_from_youtube (env\<lparr>listdir := l, getmtime := g\<rparr>) u d fmt q) =
      Some p" for l g
    unfolding download_env_irrelevant [OF m r sc, where l = l and g = g] by (rule s)
  have "\<exists>a b rest. py_split line sep = a # b # rest \<and> p = strip b"
    using pieces p by (intro exI conjI)
  then show ?thesis
    unfolding sep_def using sub indep by (intro conjI allI)
qed

lemma split_from_sep:
  "sep \<noteq> [] \<Longrightarrow> sublist sep s \<Longrightarrow> \<exists>a b rest. split_from sep cur s = a # b # rest"
proof (induction sep cur s rule: split_from.induct)
  case (1 sep cur)
  then show ?case by simp
next
  case (2 sep cur c cs)
  show ?case
  proof (cases "prefix sep (c # cs)")
    case True
    obtain b rest where "split_from sep [] (drop (length sep) (c # cs)) = b # rest"
      using split_from_not_Nil [of sep "[]" "drop (length sep) (c # cs)"]
      by (cases "split_from sep [] (drop (length sep) (c # cs))") auto
    with True 2(3) show ?thesis by simp
  next
    case False
    with 2(4) have "sublist sep cs" by (simp add: sublist_Cons_right)
    with False 2(2) 2(3) show ?thesis by simp
  qed
qed

lemma visit_line_with_separator:
  assumes "is_destination_line fmt line"
    and "sublist (if is_extract_line line then ''[ExtractAudio] Destination: ''
                  else ''Destination: '') line"
  shows "\<exists>a b rest.
    py_split line (if is_extract_line line then ''[ExtractAudio] Destination: ''
                   else ''Destination: '') = a # b # rest \<and>
    visit_line fmt line = Some (Inr (strip b))"
proof -
  define sep where
    "sep = (if is_extract_line line then ''[ExtractAudio] Destination: '' else ''Destination: '')"
  have "sep \<noteq> []" by (simp add: sep_def)
  moreover from assms(2) have "sublist sep line" by (simp only: sep_def)
  ultimately obtain a b rest where pieces: "py_split line sep = a # b # rest"
    unfolding py_split_def using split_from_sep by blast
  have "visit_line fmt line = Some (map_sum id strip (index1 (py_split line sep)))"
    using assms(1) by (auto simp: visit_line_def is_destination_line_def sep_def)
  with pieces have "visit_line fmt line = Some (Inr (strip b))" by simp
  with pieces have "py_split line sep = a # b # rest \<and> visit_line fmt line = Some (Inr (strip b))"
    by (rule conjI)
  then show ?thesis unfolding sep_def by (intro exI)
qed

lemma download_makedirs_fails:
  "makedirs env d = Some e \<Longrightarrow> fst (download_audio_from_youtube env u d fmt q) = None"
  by (cases e) (simp_all add: download_audio_from_youtube_def download_body_def)

lemma download_no_file:
  assumes "makedirs env d = None" and "run env (command u d fmt q) = Inr stdout"
    and "find (is_destination_line fmt) (py_split stdout [CHR 0x0A]) = None"
    and "listdir env d = Inr names" and "filter (suffix (''.'' @ fmt)) names = []"
  shows "download_audio_from_youtube env u d fmt q =
    (None, [''Downloading audio from: '' @ u,
            ''Error downloading audio: '' @
              (''Could not find downloaded audio file with format '' @ fmt)])"
proof -
  from assms(3) have "scan_lines fmt (py_split stdout [CHR 0x0A]) = None"
    by (simp add: scan_lines_find)
  then have "(case scan_lines fmt (py_split stdout [CHR 0x0A]) of
            Some r \<Rightarrow> r | None \<Rightarrow> fallback env d fmt) =
      Inl (OtherException (''Could not find downloaded audio file with format '' @ fmt))"
    using fallback_no_file [OF assms(4,5)] by simp
  then show ?thesis by (rule download_unresolved [OF assms(1,2)])
qed

lemma download_body_caught:
  assumes "download_body env u d fmt q = (Inl e, out)"
  shows "fst (download_audio_from_youtube env u d fmt q) = None \<and>
    (\<exists>msgs. msgs \<noteq> [] \<and> snd (download_audio_from_youtube env u d fmt q) = out @ msgs)"
  using assms by (cases e) (simp_all add: download_audio_from_youtube_def)

lemma download_called_process_error:
  assumes "makedirs env d = None"
    and "run env (command u d fmt q) = Inl (CalledProcessError msg err)"
  shows "download_audio_from_youtube env u d fmt q =
    (None, [''Downloading audio from: '' @ u, ''Error running yt-dlp: '' @ msg,
            ''Error output: '' @ err])"
  using assms by (simp add: download_audio_from_youtube_def download_body_def)

text \<open>
  The first destination line wins: when it holds its marker followed by a space, the
  function returns the text between the first and the second occurrence of that marker,
  stripped, whatever the later lines and the output directory hold.
\<close>

theorem first_destination_line_wins:
  assumes "makedirs env d = None" and "run env (command u d fmt q) = Inr stdout"
    and "find (is_destination_line fmt) (py_split stdout [CHR 0x0A]) = Some line"
    and "sublist (if is_extract_line line then ''[ExtractAudio] Destination: ''
                  else ''Destination: '') line"
  shows "\<exists>a b rest.
    py_split line (if is_extract_line line then ''[ExtractAudio] Destination: ''
                   else ''Destination: '') = a # b # rest \<and>
    download_audio_from_youtube env u d fmt q =
      (Some (strip b), [''Downloading audio from: '' @ u,
                        ''Audio downloaded successfully to: '' @ strip b])"
proof -
  from assms(3) have dest: "is_destination_line fmt line"
    by (simp add: find_Some_iff) blast
  from visit_line_with_separator [OF dest assms(4)] obtain a b rest where
    pieces: "py_split line (if is_extract_line line then ''[ExtractAudio] Destination: ''
                   else ''Destination: '') = a # b # rest"
    and visit: "visit_line fmt line = Some (Inr (strip b))"
    by (elim exE conjE)
  from assms(3) visit have "(case scan_lines fmt (py_split stdout [CHR 0x0A]) of
            Some r \<Rightarrow> r | None \<Rightarrow> fallback env d fmt) = Inr (strip b)"
    by (simp add: scan_lines_find)
  then have "download_audio_from_youtube env u d fmt q =
      (Some (strip b), [''Downloading audio from: '' @ u,
                        ''Audio downloaded successfully to: '' @ strip b])"
    by (rule download_resolved [OF assms(1,2)])
  with pieces show ?thesis by (intro exI conjI)
qed

theorem first_destination_line_wins_witness:
  "makedirs (example_env stdout_test_clip [''Other.wav''] (\<lambda>_. 0)) ''./'' = None \<and>
   run (example_env stdout_test_clip [''Other.wav''] (\<lambda>_. 0))
     (command ''https://youtu.be/x'' ''./'' ''wav'' ''0'') = Inr stdout_test_clip \<and>
   find (is_destination_line ''wav'') (py_split stdout_test_clip [CHR 0x0A]) =
     Some line_test_clip \<and>
   is_extract_line line_test_clip \<and>
   sublist ''[ExtractAudio] Destination: '' line_test_clip \<and>
   (\<exists>a b rest.
      py_split line_test_clip (if is_extract_line line_test_clip
        then ''[ExtractAudio] Destination: '' else ''Destination: '') = a # b # rest \<and>
      download_audio_from_youtube (example_env stdout_test_clip [''Other.wav''] (\<lambda>_. 0))
        ''https://youtu.be/x'' ''./'' ''wav'' ''0'' =
        (Some (strip b), [''Downloading audio from: '' @ ''https://youtu.be/x'',
                          ''Audio downloaded successfully to: '' @ strip b])) \<and>
   download_audio_from_youtube (example_env stdout_test_clip [''Other.wav''] (\<lambda>_. 0))
     ''https://youtu.be/x'' ''./'' ''wav'' ''0'' =
     (Some ''./Test Clip.wav'',
      [''Downloading audio from: https://youtu.be/x'',
       ''Audio downloaded successfully to: ./Test Clip.wav''])"
proof -
  let ?env = "example_env stdout_test_clip [''Other.wav''] (\<lambda>_. 0)"
  have h1: "makedirs ?env ''./'' = None"
    by (simp add: example_env_def)
  have h2: "run ?env (command ''https://youtu.be/x'' ''./'' ''wav'' ''0'') = Inr stdout_test_clip"
    by (simp add: example_env_def)
  have h3: "find (is_destination_line ''wav'') (py_split stdout_test_clip [CHR 0x0A]) =
      Some line_test_clip"
    by code_simp
  have h4: "is_extract_line line_test_clip"
    by code_simp
  have h5: "sublist ''[ExtractAudio] Destination: '' line_test_clip"
    by code_simp
  from h4 h5 have h6: "sublist (if is_extract_line line_test_clip
      then ''[ExtractAudio] Destination: '' else ''Destination: '') line_test_clip"
    by simp
  note c = first_destination_line_wins [OF h1 h2 h3 h6]
  have v: "download_audio_from_youtube ?env ''https://youtu.be/x'' ''./'' ''wav'' ''0'' =
     (Some ''./Test Clip.wav'',
      [''Downloading audio from: https://youtu.be/x'',
       ''Audio downloaded successfully to: ./Test Clip.wav''])"
    by code_simp
  from h1 h2 h3 h4 h5 c v show ?thesis by (intro conjI)
qed

section \<open>Splitting the extension off\<close>

lemma rfind_split:
  assumes "c \<in> set p"
  shows "p = take (nat (rfind p c)) p @ c # rev (takeWhile (\<lambda>x. x \<noteq> c) (rev p))"
    and "0 \<le> rfind p c"
proof -
  let ?t = "takeWhile (\<lambda>x. x \<noteq> c) (rev p)"
  let ?d = "dropWhile (\<lambda>x. x \<noteq> c) (rev p)"
  from assms have "?d \<noteq> []" by simp
  then obtain y ys where d: "?d = y # ys" by (cases ?d) auto
  have "\<not> (hd ?d \<noteq> c)" using \<open>?d \<noteq> []\<close> by (rule hd_dropWhile)
  with d have "y = c" by simp
  have "rev p = ?t @ ?d" by simp
  with d \<open>y = c\<close> have rp: "rev p = ?t @ c # ys" by simp
  then have "rev (rev p) = rev (?t @ c # ys)" by (rule arg_cong)
  then have p: "p = rev ys @ c # rev ?t" by simp
  then have "length p = length (rev ys @ c # rev ?t)" by (rule arg_cong)
  then have len: "length p = length ys + 1 + length ?t" by simp
  with assms have r: "rfind p c = int (length ys)" by (simp add: rfind_def)
  show "0 \<le> rfind p c" unfolding r by simp
  have "take (length ys) p = take (length ys) (rev ys @ c # rev ?t)" using p by (rule arg_cong)
  then have "take (length ys) p = rev ys" by simp
  with r p show "p = take (nat (rfind p c)) p @ c # rev (takeWhile (\<lambda>x. x \<noteq> c) (rev p))"
    by simp
qed

lemma rfind_lower: "- 1 \<le> rfind p c"
proof (cases "c \<in> set p")
  case True
  then have "0 \<le> rfind p c" by (rule rfind_split(2))
  then show ?thesis by simp
next
  case False
  then show ?thesis by (simp add: rfind_def)
qed

lemma takeWhile_shorter:
  "x \<in> set (takeWhile Q xs) \<Longrightarrow> \<not> P x \<Longrightarrow> length (takeWhile P xs) < length (takeWhile Q xs)"
  by (induction xs) (auto split: if_splits)

lemma splitext_cases:
  assumes "splitext p = (root, ext)"
  shows "root @ ext = p \<and>
    (ext = [] \<or> (\<exists>e. ext = CHR ''.'' # e \<and> CHR ''.'' \<notin> set e \<and> CHR ''/'' \<notin> set e))"
proof (cases "rfind p CHR ''.'' > rfind p CHR ''/'' \<and>
    skip_dots p (rfind p CHR ''/'' + 1) (rfind p CHR ''.'')")
  case False
  with assms have "root = p" and "ext = []"
    by (auto simp: splitext_def Let_def)
  then show ?thesis by simp
next
  case True
  let ?t = "takeWhile (\<lambda>x. x \<noteq> CHR ''.'') (rev p)"
  from True assms have root: "root = take (nat (rfind p CHR ''.'')) p"
    and ext: "ext = drop (nat (rfind p CHR ''.'')) p"
    by (auto simp: splitext_def Let_def)
  from True rfind_lower [of p "CHR ''/''"] have "0 \<le> rfind p CHR ''.''" by linarith
  then have dot: "CHR ''.'' \<in> set p" by (auto simp: rfind_def split: if_splits)
  from rfind_split(1) [OF dot]
  have p: "p = take (nat (rfind p CHR ''.'')) p @ CHR ''.'' # rev ?t" .
  have "length (take (nat (rfind p CHR ''.'')) p) = nat (rfind p CHR ''.'')"
    using dot by (simp add: rfind_def)
  then have "drop (nat (rfind p CHR ''.'')) p = CHR ''.'' # rev ?t"
    using p by (metis append_eq_conv_conj)
  with ext have e: "ext = CHR ''.'' # rev ?t" by simp
  have nodot: "CHR ''.'' \<notin> set (rev ?t)"
    using set_takeWhileD [of "CHR ''.''" "\<lambda>x. x \<noteq> CHR ''.''" "rev p"] by auto
  have noslash: "CHR ''/'' \<notin> set (rev ?t)"
  proof
    assume "CHR ''/'' \<in> set (rev ?t)"
    then have in_t: "CHR ''/'' \<in> set ?t" by simp
    then have "CHR ''/'' \<in> set (rev p)" by (rule set_takeWhileD [THEN conjunct1])
    then have slash: "CHR ''/'' \<in> set p" by simp
    from in_t have "length (takeWhile (\<lambda>x. x \<noteq> CHR ''/'') (rev p)) < length ?t"
      by (rule takeWhile_shorter) simp
    with slash dot have "rfind p CHR ''.'' < rfind p CHR ''/''"
      by (simp add: rfind_def)
    with True show False by simp
  qed
  from root ext have "root @ ext = p" by simp
  with e nodot noslash show ?thesis by blast
qed

lemma rfind_last:
  assumes "c \<notin> set ys"
  shows "rfind (xs @ c # ys) c = int (length xs)"
proof -
  have "takeWhile (\<lambda>x. x \<noteq> c) (rev ys @ c # rev xs) =
      rev ys @ takeWhile (\<lambda>x. x \<noteq> c) (c # rev xs)"
    by (rule takeWhile_append2) (use assms in auto)
  then have "takeWhile (\<lambda>x. x \<noteq> c) (rev (xs @ c # ys)) = rev ys" by simp
  then show ?thesis by (simp add: rfind_def)
qed

lemma rfind_absent: "c \<notin> set p \<Longrightarrow> rfind p c = - 1"
  by (simp add: rfind_def)

lemma rfind_before: "c \<notin> set ys \<Longrightarrow> rfind (xs @ ys) c < int (length xs)"
proof (cases "c \<in> set xs")
  case False
  assume "c \<notin> set ys"
  with False have "rfind (xs @ ys) c = - 1" by (simp add: rfind_absent)
  then show ?thesis by simp
next
  case True
  assume a: "c \<notin> set ys"
  from True obtain as bs where xs: "xs = as @ c # bs" and "c \<notin> set bs"
    by (auto dest: split_list_last)
  with a have "c \<notin> set (bs @ ys)" by simp
  then have "rfind (as @ c # (bs @ ys)) c = int (length as)" by (rule rfind_last)
  then show ?thesis by (simp add: xs)
qed

text \<open>The index after the last slash is where the file name starts.\<close>

lemma rfind_slash:
  assumes "dir = [] \<or> suffix ''/'' dir" and "CHR ''/'' \<notin> set name"
  shows "rfind (dir @ name) CHR ''/'' + 1 = int (length dir)"
proof (cases "dir = []")
  case True
  with assms(2) show ?thesis by (simp add: rfind_absent)
next
  case False
  with assms(1) obtain dir' where dir: "dir = dir' @ ''/''"
    by (auto simp: suffix_def)
  from assms(2) have "rfind (dir' @ CHR ''/'' # name) CHR ''/'' = int (length dir')"
    by (rule rfind_last)
  then show ?thesis by (simp add: dir)
qed

lemma skip_dots_iff:
  "skip_dots (pre @ stem @ post) (int (length pre)) (int (length pre + length stem)) =
     (\<exists>c \<in> set stem. c \<noteq> CHR ''.'')"
proof (induction stem arbitrary: pre)
  case Nil
  show ?case by (simp add: skip_dots.simps)
next
  case (Cons c cs)
  have "skip_dots ((pre @ [c]) @ cs @ post) (int (length (pre @ [c])))
      (int (length (pre @ [c]) + length cs)) = (\<exists>c \<in> set cs. c \<noteq> CHR ''.'')"
    by (rule Cons.IH)
  then have ih: "skip_dots (pre @ c # cs @ post) (int (length pre) + 1)
      (int (length pre + length (c # cs))) = (\<exists>c \<in> set cs. c \<noteq> CHR ''.'')"
    by (simp add: add.commute)
  have "skip_dots (pre @ (c # cs) @ post) (int (length pre)) (int (length pre + length (c # cs))) =
      (if [c] \<noteq> ''.'' then True
       else skip_dots (pre @ c # cs @ post) (int (length pre) + 1)
              (int (length pre + length (c # cs))))"
    by (subst skip_dots.simps) simp
  with ih show ?case by auto
qed

lemma splitext_with_extension:
  assumes dir: "dir = [] \<or> suffix ''/'' dir"
    and stem: "CHR ''/'' \<notin> set stem" "\<exists>c \<in> set stem. c \<noteq> CHR ''.''"
    and e: "CHR ''.'' \<notin> set e" "CHR ''/'' \<notin> set e"
  shows "splitext (dir @ stem @ CHR ''.'' # e) = (dir @ stem, CHR ''.'' # e)"
proof -
  let ?p = "dir @ stem @ CHR ''.'' # e"
  from stem(1) e(2) have "CHR ''/'' \<notin> set (stem @ CHR ''.'' # e)" by simp
  with dir have sep: "rfind (dir @ stem @ CHR ''.'' # e) CHR ''/'' + 1 = int (length dir)"
    by (rule rfind_slash)
  have "rfind ((dir @ stem) @ CHR ''.'' # e) CHR ''.'' = int (length (dir @ stem))"
    using e(1) by (rule rfind_last)
  then have dot: "rfind ?p CHR ''.'' = int (length dir + length stem)" by simp
  have "skip_dots (dir @ stem @ CHR ''.'' # e) (int (length dir))
      (int (length dir + length stem))"
    using stem(2) skip_dots_iff [of dir stem "CHR ''.'' # e"] by blast
  with sep dot have cond: "rfind ?p CHR ''.'' > rfind ?p CHR ''/'' \<and>
      skip_dots ?p (rfind ?p CHR ''/'' + 1) (rfind ?p CHR ''.'')"
    by simp
  then have "splitext ?p = (take (nat (rfind ?p CHR ''.'')) ?p, drop (nat (rfind ?p CHR ''.'')) ?p)"
    by (simp add: splitext_def Let_def)
  then show ?thesis by (simp add: dot)
qed

lemma splitext_without_extension:
  assumes dir: "dir = [] \<or> suffix ''/'' dir"
    and dots: "set dots \<subseteq> {CHR ''.''}"
    and rest: "CHR ''.'' \<notin> set rest" "CHR ''/'' \<notin> set rest"
  shows "splitext (dir @ dots @ rest) = (dir @ dots @ rest, [])"
proof -
  let ?p = "dir @ dots @ rest"
  from dots rest(2) have "CHR ''/'' \<notin> set (dots @ rest)" by auto
  with dir have sep: "rfind (dir @ dots @ rest) CHR ''/'' + 1 = int (length dir)"
    by (rule rfind_slash)
  have "(rfind ?p CHR ''.'' > rfind ?p CHR ''/'' \<and>
      skip_dots ?p (rfind ?p CHR ''/'' + 1) (rfind ?p CHR ''.'')) = False"
  proof (cases "dots = []")
    case True
    have "rfind (dir @ rest) CHR ''.'' < int (length dir)"
      using rest(1) by (rule rfind_before)
    with sep True show ?thesis by simp
  next
    case False
    then obtain ds where ds: "dots = ds @ ''.''"
      using dots by (cases dots rule: rev_cases) auto
    have "rfind ((dir @ ds) @ CHR ''.'' # rest) CHR ''.'' = int (length (dir @ ds))"
      using rest(1) by (rule rfind_last)
    then have dot: "rfind ?p CHR ''.'' = int (length dir + length ds)" by (simp add: ds)
    from dots ds have "\<not> (\<exists>c \<in> set ds. c \<noteq> CHR ''.'')" by auto
    moreover have "skip_dots (dir @ ds @ (CHR ''.'' # rest)) (int (length dir))
        (int (length dir + length ds)) = (\<exists>c \<in> set ds. c \<noteq> CHR ''.'')"
      by (rule skip_dots_iff)
    ultimately have "\<not> skip_dots (dir @ ds @ (CHR ''.'' # rest)) (int (length dir))
        (int (length dir + length ds))"
      by blast
    then have "\<not> skip_dots ?p (int (length dir)) (int (length dir + length ds))"
      by (simp add: ds)
    with sep dot show ?thesis by simp
  qed
  then show ?thesis unfolding splitext_def Let_def by (simp only: if_False)
qed

text \<open>Every path has one of the two shapes.\<close>

lemma path_shape:
  "(\<exists>dir stem e. p = dir @ stem @ CHR ''.'' # e \<and> (dir = [] \<or> suffix ''/'' dir) \<and>
      CHR ''/'' \<notin> set stem \<and> (\<exists>c \<in> set stem. c \<noteq> CHR ''.'') \<and>
      CHR ''.'' \<notin> set e \<and> CHR ''/'' \<notin> set e) \<or>
   (\<exists>dir dots rest. p = dir @ dots @ rest \<and> (dir = [] \<or> suffix ''/'' dir) \<and>
      set dots \<subseteq> {CHR ''.''} \<and> CHR ''.'' \<notin> set rest \<and> CHR ''/'' \<notin> set rest)"
proof -
  define name where "name = rev (takeWhile (\<lambda>x. x \<noteq> CHR ''/'') (rev p))"
  define dir where "dir = rev (dropWhile (\<lambda>x. x \<noteq> CHR ''/'') (rev p))"
  have p: "p = dir @ name"
    unfolding dir_def name_def
    by (metis takeWhile_dropWhile_id rev_append rev_rev_ident)
  have name: "CHR ''/'' \<notin> set name"
    unfolding name_def using set_takeWhileD [of "CHR ''/''" "\<lambda>x. x \<noteq> CHR ''/''" "rev p"] by auto
  have dir: "dir = [] \<or> suffix ''/'' dir"
  proof (cases "dropWhile (\<lambda>x. x \<noteq> CHR ''/'') (rev p)")
    case Nil
    then show ?thesis by (simp add: dir_def)
  next
    case (Cons y ys)
    then have "\<not> (y \<noteq> CHR ''/'')"
      using hd_dropWhile [of "\<lambda>x. x \<noteq> CHR ''/''" "rev p"] by simp
    with Cons have "dir = rev ys @ ''/''" by (simp add: dir_def)
    then show ?thesis by (simp add: suffix_def)
  qed
  define dots where "dots = takeWhile (\<lambda>x. x = CHR ''.'') name"
  define rest where "rest = dropWhile (\<lambda>x. x = CHR ''.'') name"
  have nm: "name = dots @ rest" by (simp add: dots_def rest_def)
  have dots: "set dots \<subseteq> {CHR ''.''}"
    unfolding dots_def using set_takeWhileD [of _ "\<lambda>x. x = CHR ''.''" name] by auto
  from name nm have rest_slash: "CHR ''/'' \<notin> set rest" by simp
  show ?thesis
  proof (cases "CHR ''.'' \<in> set rest")
    case False
    from p nm have "p = dir @ dots @ rest" by simp
    with dir dots False rest_slash
    have "\<exists>dir dots rest. p = dir @ dots @ rest \<and> (dir = [] \<or> suffix ''/'' dir) \<and>
      set dots \<subseteq> {CHR ''.''} \<and> CHR ''.'' \<notin> set rest \<and> CHR ''/'' \<notin> set rest"
      by (intro exI conjI)
    then show ?thesis by (rule disjI2)
  next
    case True
    then obtain as e where r: "rest = as @ CHR ''.'' # e" and e: "CHR ''.'' \<notin> set e"
      by (auto dest: split_list_last)
    from True have "rest \<noteq> []" by auto
    then have nd: "\<not> (hd rest = CHR ''.'')"
      unfolding rest_def by (rule hd_dropWhile)
    with r have as: "as \<noteq> []" by (cases as) auto
    with r nd have "hd as \<noteq> CHR ''.''" by (cases as) auto
    moreover from as have "hd as \<in> set (dots @ as)" by simp
    ultimately have nondot: "\<exists>c \<in> set (dots @ as). c \<noteq> CHR ''.''"
      by (intro bexI [where x = "hd as"])
    from name nm r have s1: "CHR ''/'' \<notin> set (dots @ as)" and s2: "CHR ''/'' \<notin> set e"
      by simp_all
    from p nm r have "p = dir @ (dots @ as) @ CHR ''.'' # e" by simp
    with dir s1 nondot e s2
    have "\<exists>dir stem e. p = dir @ stem @ CHR ''.'' # e \<and> (dir = [] \<or> suffix ''/'' dir) \<and>
      CHR ''/'' \<notin> set stem \<and> (\<exists>c \<in> set stem. c \<noteq> CHR ''.'') \<and>
      CHR ''.'' \<notin> set e \<and> CHR ''/'' \<notin> set e"
      by (intro exI conjI)
    then show ?thesis by (rule disjI1)
  qed
qed

section \<open>The transcriber: results\<close>

lemma transcribe_body_files_other:
  assumes "q \<noteq> transcript_path p" and "transcribe_body env p key w = (r, w')"
  shows "files w' q = files w q"
  using assms
  by (auto simp: transcribe_body_def print_def Let_def
      split: option.splits sum.splits prod.splits)

lemma files_print: "files (print s w) = files w"
  by (simp add: print_def)

lemma requests_print: "requests (print s w) = requests w"
  by (simp add: print_def)

lemma printed_print: "printed (print s w) = printed w @ [s]"
  by (simp add: print_def)

lemma transcribe_audio_files_other:
  assumes "q \<noteq> transcript_path p"
  shows "files (transcribe_audio env p key w) q = files w q"
proof -
  obtain r w' where b: "transcribe_body env p key w = (r, w')"
    by (cases "transcribe_body env p key w")
  then have "files w' q = files w q"
    using assms by (intro transcribe_body_files_other)
  with b show ?thesis
    by (cases r) (simp_all add: transcribe_audio_def files_print)
qed

lemma transcribe_body_success:
  assumes "transcribe_body env p key w = (None, w')"
  shows "\<exists>r text. transcribe_file env key p options = Inr r \<and> to_json env r = Inr text \<and>
    files w' (transcript_path p) = Some text"
  using assms
  by (auto simp: transcribe_body_def print_def Let_def
      split: option.splits sum.splits prod.splits)

lemma transcribe_audio_printed:
  "\<exists>rest. printed (transcribe_audio env p key w) = printed w @ rest"
  by (auto simp: transcribe_audio_def transcribe_body_def print_def Let_def
      split: option.splits sum.splits prod.splits)

lemma transcribe_body_caught:
  assumes "transcribe_body tenv p key w = (Some e, w')"
  shows "transcribe_audio tenv p key w = print (''Error during transcription: '' @ exn_str e) w'"
  using assms by (simp add: transcribe_audio_def)

section \<open>The command line: results\<close>

lemma main_not_fetched:
  assumes "fst (download_audio_from_youtube fenv (url a) (output a) (format_str (format a))
      (quality a)) = None"
  shows "main a fenv tenv getenv w =
    w\<lparr>printed := printed w @ snd (download_audio_from_youtube fenv (url a) (output a)
      (format_str (format a)) (quality a))\<rparr>"
proof -
  obtain r out where d: "download_audio_from_youtube fenv (url a) (output a)
      (format_str (format a)) (quality a) = (r, out)"
    by (cases "download_audio_from_youtube fenv (url a) (output a) (format_str (format a))
      (quality a)")
  with assms have "r = None" by simp
  with d show ?thesis by (simp add: main_def)
qed

lemma main_fetched:
  assumes "transcribe a"
    and "download_audio_from_youtube fenv (url a) (output a) (format_str (format a))
      (quality a) = (Some p, out)"
    and "p \<noteq> []"
  shows "main a fenv tenv getenv w =
    (if \<not> truthy (getenv ''DEEPGRAM_API_KEY'')
     then print (''Please set it using: export DEEPGRAM_API_KEY='' @ [CHR 0x27] @
              ''your-api-key'' @ [CHR 0x27])
            (print ''Error: DEEPGRAM_API_KEY environment variable is required for transcription.''
              (print (str_of (getenv ''DEEPGRAM_API_KEY'')) (w\<lparr>printed := printed w @ out\<rparr>)))
     else transcribe_audio tenv p (the (getenv ''DEEPGRAM_API_KEY''))
            (print (str_of (getenv ''DEEPGRAM_API_KEY'')) (w\<lparr>printed := printed w @ out\<rparr>)))"
  using assms by (simp add: main_def Let_def)

section \<open>The claims of the specification\<close>

text \<open>
  C1, at the input where it fails. The downloader's output is the single line
  \<open>[ExtractAudio] Destination:./Test Clip.wav\<close>, which holds the marker that line 53 tests
  for, and the file is in the output directory. Line 54 splits at the marker followed by a
  space, which the line does not hold, so \<open>[1]\<close> raises IndexError: the function returns
  \<open>None\<close> and prints the text of the IndexError, where the claim promises the path parsed
  from the line.
\<close>

theorem destination_line_without_space_returns_None:
  "is_extract_line ''[ExtractAudio] Destination:./Test Clip.wav'' \<and>
   download_audio_from_youtube
     (example_env ''[ExtractAudio] Destination:./Test Clip.wav'' [''Test Clip.wav''] (\<lambda>_. 0))
     ''https://youtu.be/x'' ''./'' ''wav'' ''0'' =
   (None, [''Downloading audio from: https://youtu.be/x'',
           ''Error downloading audio: list index out of range''])"
  by code_simp

text \<open>
  C2. When no line of the downloader's output is a destination line and the output
  directory holds at least one name ending with a dot and the format, each with a time of
  last modification, the function returns the output directory joined with the most recently
  modified of these names: no other one is newer, and those listed before it are strictly
  older (of several with the same, newest time the one listed first is taken).
\<close>

theorem fallback_selects_newest:
  assumes "makedirs env d = None" and "run env (command u d fmt q) = Inr stdout"
    and "find (is_destination_line fmt) (py_split stdout [CHR 0x0A]) = None"
    and "listdir env d = Inr names"
    and "filter (suffix (''.'' @ fmt)) names \<noteq> []"
    and "\<forall>f \<in> set names. suffix (''.'' @ fmt) f \<longrightarrow> getmtime env (path_join d f) = Inr (mtime f)"
  shows "\<exists>before f after.
    filter (suffix (''.'' @ fmt)) names = before @ f # after \<and>
    (\<forall>g \<in> set before. mtime g < mtime f) \<and> (\<forall>g \<in> set after. mtime g \<le> mtime f) \<and>
    download_audio_from_youtube env u d fmt q =
      (Some (path_join d f),
       [''Downloading audio from: '' @ u,
        ''Audio downloaded successfully to: '' @ path_join d f])"
proof -
  from assms(3) have scan: "scan_lines fmt (py_split stdout [CHR 0x0A]) = None"
    by (simp add: scan_lines_find)
  obtain before f after where split: "filter (suffix (''.'' @ fmt)) names = before @ f # after"
    and older: "\<forall>g \<in> set before. mtime g < mtime f" "\<forall>g \<in> set after. mtime g \<le> mtime f"
    and fb: "fallback env d fmt = Inr (path_join d f)"
    using fallback_newest [OF assms(4,5,6)] by blast
  from scan fb have "download_audio_from_youtube env u d fmt q =
      (Some (path_join d f),
       [''Downloading audio from: '' @ u,
        ''Audio downloaded successfully to: '' @ path_join d f])"
    by (intro download_resolved [OF assms(1,2)]) simp
  with split older show ?thesis by blast
qed

theorem fallback_selects_newest_witness:
  "makedirs (example_env stdout_no_destination names_mixed mtime_by_path) ''./'' = None \<and>
   run (example_env stdout_no_destination names_mixed mtime_by_path)
     (command ''https://youtu.be/x'' ''./'' ''wav'' ''0'') = Inr stdout_no_destination \<and>
   find (is_destination_line ''wav'') (py_split stdout_no_destination [CHR 0x0A]) = None \<and>
   listdir (example_env stdout_no_destination names_mixed mtime_by_path) ''./'' =
     Inr names_mixed \<and>
   filter (suffix (''.'' @ ''wav'')) names_mixed = [''old.wav'', ''new.wav''] \<and>
   list_all (\<lambda>f. getmtime (example_env stdout_no_destination names_mixed mtime_by_path)
                  (path_join ''./'' f) = Inr (mtime_by_path (path_join ''./'' f)))
     (filter (suffix (''.'' @ ''wav'')) names_mixed) \<and>
   (\<exists>before f after.
      filter (suffix (''.'' @ ''wav'')) names_mixed = before @ f # after \<and>
      (\<forall>g \<in> set before. mtime_by_path (path_join ''./'' g) < mtime_by_path (path_join ''./'' f)) \<and>
      (\<forall>g \<in> set after. mtime_by_path (path_join ''./'' g) \<le> mtime_by_path (path_join ''./'' f)) \<and>
      download_audio_from_youtube (example_env stdout_no_destination names_mixed mtime_by_path)
        ''https://youtu.be/x'' ''./'' ''wav'' ''0'' =
        (Some (path_join ''./'' f),
         [''Downloading audio from: '' @ ''https://youtu.be/x'',
          ''Audio downloaded successfully to: '' @ path_join ''./'' f])) \<and>
   download_audio_from_youtube (example_env stdout_no_destination names_mixed mtime_by_path)
     ''https://youtu.be/x'' ''./'' ''wav'' ''0'' =
     (Some ''./new.wav'',
      [''Downloading audio from: https://youtu.be/x'',
       ''Audio downloaded successfully to: ./new.wav''])"
proof -
  let ?env = "example_env stdout_no_destination names_mixed mtime_by_path"
  have h1: "makedirs ?env ''./'' = None"
    by (simp add: example_env_def)
  have h2: "run ?env (command ''https://youtu.be/x'' ''./'' ''wav'' ''0'') =
      Inr stdout_no_destination"
    by (simp add: example_env_def)
  have h3: "find (is_destination_line ''wav'') (py_split stdout_no_destination [CHR 0x0A]) = None"
    by code_simp
  have h4: "listdir ?env ''./'' = Inr names_mixed"
    by (simp add: example_env_def)
  have h5: "filter (suffix (''.'' @ ''wav'')) names_mixed = [''old.wav'', ''new.wav'']"
    by code_simp
  then have h5': "filter (suffix (''.'' @ ''wav'')) names_mixed \<noteq> []"
    by simp
  have h6: "\<forall>f \<in> set names_mixed. suffix (''.'' @ ''wav'') f \<longrightarrow>
      getmtime ?env (path_join ''./'' f) = Inr (mtime_by_path (path_join ''./'' f))"
    by (simp add: example_env_def)
  have h6': "list_all (\<lambda>f. getmtime ?env (path_join ''./'' f) =
      Inr (mtime_by_path (path_join ''./'' f))) (filter (suffix (''.'' @ ''wav'')) names_mixed)"
    by (simp add: example_env_def list_all_iff)
  note c = fallback_selects_newest [OF h1 h2 h3 h4 h5' h6]
  have v: "download_audio_from_youtube ?env ''https://youtu.be/x'' ''./'' ''wav'' ''0'' =
     (Some ''./new.wav'',
      [''Downloading audio from: https://youtu.be/x'',
       ''Audio downloaded successfully to: ./new.wav''])"
    by code_simp
  from h1 h2 h3 h4 h5 h6' c v show ?thesis by (intro conjI)
qed

text \<open>
  C3. When the downloader's output has no destination line and no name in the output
  directory ends with a dot and the format, the function returns \<open>None\<close>, and \<open>main\<close>
  only adds the lines the function printed: no request is made, no file is touched and
  nothing of the transcriber is printed, also when \<open>-t\<close> was given. When the output
  directory could be created, the lines printed are the announcement and the error
  \<open>Could not find downloaded audio file with format ...\<close>.
\<close>

theorem no_file_no_transcription:
  assumes "run fenv (command (url a) (output a) (format_str (format a)) (quality a)) = Inr stdout"
    and "find (is_destination_line (format_str (format a))) (py_split stdout [CHR 0x0A]) = None"
    and "listdir fenv (output a) = Inr names"
    and "filter (suffix (''.'' @ format_str (format a))) names = []"
  shows "fst (download_audio_from_youtube fenv (url a) (output a) (format_str (format a))
           (quality a)) = None \<and>
    main a fenv tenv getenv w =
      w\<lparr>printed := printed w @ snd (download_audio_from_youtube fenv (url a) (output a)
        (format_str (format a)) (quality a))\<rparr> \<and>
    (makedirs fenv (output a) = None \<longrightarrow>
       snd (download_audio_from_youtube fenv (url a) (output a) (format_str (format a))
         (quality a)) =
       [''Downloading audio from: '' @ url a,
        ''Error downloading audio: '' @
          (''Could not find downloaded audio file with format '' @ format_str (format a))])"
proof -
  have ok: "download_audio_from_youtube fenv (url a) (output a) (format_str (format a))
      (quality a) =
    (None, [''Downloading audio from: '' @ url a,
            ''Error downloading audio: '' @
              (''Could not find downloaded audio file with format '' @ format_str (format a))])"
    if "makedirs fenv (output a) = None"
    using that assms by (rule download_no_file)
  have none: "fst (download_audio_from_youtube fenv (url a) (output a) (format_str (format a))
           (quality a)) = None"
  proof (cases "makedirs fenv (output a)")
    case None
    then show ?thesis by (simp add: ok)
  next
    case (Some e)
    then show ?thesis by (rule download_makedirs_fails)
  qed
  from none have "main a fenv tenv getenv w =
      w\<lparr>printed := printed w @ snd (download_audio_from_youtube fenv (url a) (output a)
        (format_str (format a)) (quality a))\<rparr>"
    by (rule main_not_fetched)
  with none ok show ?thesis by simp
qed

theorem no_file_no_transcription_witness:
  "transcribe example_args \<and>
   run (example_env stdout_no_destination [''notes.txt'', ''newer.mp3''] mtime_by_path)
     (command (url example_args) (output example_args) (format_str (format example_args))
        (quality example_args)) = Inr stdout_no_destination \<and>
   find (is_destination_line (format_str (format example_args)))
     (py_split stdout_no_destination [CHR 0x0A]) = None \<and>
   listdir (example_env stdout_no_destination [''notes.txt'', ''newer.mp3''] mtime_by_path)
     (output example_args) = Inr [''notes.txt'', ''newer.mp3''] \<and>
   filter (suffix (''.'' @ format_str (format example_args))) [''notes.txt'', ''newer.mp3''] = [] \<and>
   makedirs (example_env stdout_no_destination [''notes.txt'', ''newer.mp3''] mtime_by_path)
     (output example_args) = None \<and>
   download_audio_from_youtube
     (example_env stdout_no_destination [''notes.txt'', ''newer.mp3''] mtime_by_path)
     (url example_args) (output example_args) (format_str (format example_args))
     (quality example_args) =
     (None, [''Downloading audio from: https://youtu.be/x'',
             ''Error downloading audio: Could not find downloaded audio file with format wav'']) \<and>
   main example_args
     (example_env stdout_no_destination [''notes.txt'', ''newer.mp3''] mtime_by_path)
     (example_tenv (Inr ''{}'')) (\<lambda>_. Some ''key'') example_world =
     example_world\<lparr>printed :=
       [''Downloading audio from: https://youtu.be/x'',
        ''Error downloading audio: Could not find downloaded audio file with format wav'']\<rparr>"
proof -
  let ?env = "example_env stdout_no_destination [''notes.txt'', ''newer.mp3''] mtime_by_path"
  have t: "transcribe example_args"
    by (simp add: example_args_def)
  have h1: "run ?env (command (url example_args) (output example_args)
      (format_str (format example_args)) (quality example_args)) = Inr stdout_no_destination"
    by (simp add: example_env_def)
  have h2: "find (is_destination_line (format_str (format example_args)))
      (py_split stdout_no_destination [CHR 0x0A]) = None"
    by code_simp
  have h3: "listdir ?env (output example_args) = Inr [''notes.txt'', ''newer.mp3'']"
    by (simp add: example_env_def)
  have h4: "filter (suffix (''.'' @ format_str (format example_args)))
      [''notes.txt'', ''newer.mp3''] = []"
    by code_simp
  have h5: "makedirs ?env (output example_args) = None"
    by (simp add: example_env_def)
  note c = no_file_no_transcription [OF h1 h2 h3 h4,
      where tenv = "example_tenv (Inr ''{}'')" and getenv = "\<lambda>_. Some ''key''"
        and w = example_world]
  from c h5 have out: "snd (download_audio_from_youtube ?env (url example_args)
      (output example_args) (format_str (format example_args)) (quality example_args)) =
      [''Downloading audio from: https://youtu.be/x'',
       ''Error downloading audio: Could not find downloaded audio file with format wav'']"
    by (simp add: example_args_def)
  from c have none: "fst (download_audio_from_youtube ?env (url example_args)
      (output example_args) (format_str (format example_args)) (quality example_args)) = None"
    by (rule conjunct1)
  from none out have d: "download_audio_from_youtube ?env (url example_args)
      (output example_args) (format_str (format example_args)) (quality example_args) =
      (None, [''Downloading audio from: https://youtu.be/x'',
       ''Error downloading audio: Could not find downloaded audio file with format wav''])"
    by (simp add: prod_eq_iff)
  from c have "main example_args ?env (example_tenv (Inr ''{}'')) (\<lambda>_. Some ''key'')
      example_world =
      example_world\<lparr>printed := printed example_world @
        snd (download_audio_from_youtube ?env (url example_args) (output example_args)
          (format_str (format example_args)) (quality example_args))\<rparr>"
    by (rule conjunct1 [OF conjunct2])
  then have m: "main example_args ?env (example_tenv (Inr ''{}'')) (\<lambda>_. Some ''key'')
      example_world =
      example_world\<lparr>printed :=
        [''Downloading audio from: https://youtu.be/x'',
         ''Error downloading audio: Could not find downloaded audio file with format wav'']\<rparr>"
    unfolding out by (simp add: example_world_def)
  from t h1 h2 h3 h4 h5 d m show ?thesis by (intro conjI)
qed

text \<open>
  C4. The path of the transcript depends on the path of the audio file alone: it is the
  root that \<open>os.path.splitext\<close> gives, followed by \<open>_transcript.json\<close>. Every path is a
  directory part (empty or ending with a slash) followed by a file name without a slash.
  When the name is a stem holding a character other than the dot, a dot, and then characters
  other than the dot, that last dot and what follows it are replaced by the suffix. When
  the name is some dots (none, perhaps) followed by characters other than the dot, there is no
  extension and the suffix is appended to the whole path. Every path has one of the two
  shapes, so the two cases give the transcript path of every audio path.
  \<open>transcribe_audio\<close> changes no file but the one at that path, and when it succeeds that
  file holds the JSON text of the response. \<open>/tmp/song.wav\<close> gives
  \<open>/tmp/song_transcript.json\<close>, \<open>./Test Clip.wav\<close> gives \<open>./Test Clip_transcript.json\<close>,
  and \<open>./.hidden\<close>, which has no extension, gives \<open>./.hidden_transcript.json\<close>.
\<close>

theorem transcript_path_replaces_extension:
  "(\<forall>dir stem e.
      (dir = [] \<or> suffix ''/'' dir) \<and> CHR ''/'' \<notin> set stem \<and>
      (\<exists>c \<in> set stem. c \<noteq> CHR ''.'') \<and> CHR ''.'' \<notin> set e \<and> CHR ''/'' \<notin> set e \<longrightarrow>
      transcript_path (dir @ stem @ CHR ''.'' # e) = dir @ stem @ ''_transcript.json'') \<and>
   (\<forall>dir dots rest.
      (dir = [] \<or> suffix ''/'' dir) \<and> set dots \<subseteq> {CHR ''.''} \<and>
      CHR ''.'' \<notin> set rest \<and> CHR ''/'' \<notin> set rest \<longrightarrow>
      transcript_path (dir @ dots @ rest) = dir @ dots @ rest @ ''_transcript.json'') \<and>
   ((\<exists>dir stem e. p = dir @ stem @ CHR ''.'' # e \<and> (dir = [] \<or> suffix ''/'' dir) \<and>
       CHR ''/'' \<notin> set stem \<and> (\<exists>c \<in> set stem. c \<noteq> CHR ''.'') \<and>
       CHR ''.'' \<notin> set e \<and> CHR ''/'' \<notin> set e) \<or>
    (\<exists>dir dots rest. p = dir @ dots @ rest \<and> (dir = [] \<or> suffix ''/'' dir) \<and>
       set dots \<subseteq> {CHR ''.''} \<and> CHR ''.'' \<notin> set rest \<and> CHR ''/'' \<notin> set rest)) \<and>
   fst (splitext p) @ snd (splitext p) = p \<and>
   transcript_path p = fst (splitext p) @ ''_transcript.json'' \<and>
   (\<forall>q. q \<noteq> transcript_path p \<longrightarrow>
      files (transcribe_audio env p key w) q = files w q) \<and>
   (fst (transcribe_body env p key w) = None \<longrightarrow>
      (\<exists>r text. transcribe_file env key p options = Inr r \<and> to_json env r = Inr text \<and>
         files (transcribe_audio env p key w) (transcript_path p) = Some text))"
proof -
  have with_ext: "\<forall>dir stem e.
      (dir = [] \<or> suffix ''/'' dir) \<and> CHR ''/'' \<notin> set stem \<and>
      (\<exists>c \<in> set stem. c \<noteq> CHR ''.'') \<and> CHR ''.'' \<notin> set e \<and> CHR ''/'' \<notin> set e \<longrightarrow>
      transcript_path (dir @ stem @ CHR ''.'' # e) = dir @ stem @ ''_transcript.json''"
  proof (intro allI impI, elim conjE)
    fix dir stem e :: pystr
    assume "dir = [] \<or> suffix ''/'' dir" "CHR ''/'' \<notin> set stem"
      "\<exists>c \<in> set stem. c \<noteq> CHR ''.''" "CHR ''.'' \<notin> set e" "CHR ''/'' \<notin> set e"
    then have "splitext (dir @ stem @ CHR ''.'' # e) = (dir @ stem, CHR ''.'' # e)"
      by (rule splitext_with_extension)
    then show "transcript_path (dir @ stem @ CHR ''.'' # e) = dir @ stem @ ''_transcript.json''"
      by (simp add: transcript_path_def)
  qed
  have without_ext: "\<forall>dir dots rest.
      (dir = [] \<or> suffix ''/'' dir) \<and> set dots \<subseteq> {CHR ''.''} \<and>
      CHR ''.'' \<notin> set rest \<and> CHR ''/'' \<notin> set rest \<longrightarrow>
      transcript_path (dir @ dots @ rest) = dir @ dots @ rest @ ''_transcript.json''"
  proof (intro allI impI, elim conjE)
    fix dir dots rest :: pystr
    assume "dir = [] \<or> suffix ''/'' dir" "set dots \<subseteq> {CHR ''.''}"
      "CHR ''.'' \<notin> set rest" "CHR ''/'' \<notin> set rest"
    then have "splitext (dir @ dots @ rest) = (dir @ dots @ rest, [])"
      by (rule splitext_without_extension)
    then show "transcript_path (dir @ dots @ rest) = dir @ dots @ rest @ ''_transcript.json''"
      by (simp add: transcript_path_def)
  qed
  have whole: "fst (splitext p) @ snd (splitext p) = p"
    using splitext_cases [of p "fst (splitext p)" "snd (splitext p)"] by simp
  have tp: "transcript_path p = fst (splitext p) @ ''_transcript.json''"
    by (simp add: transcript_path_def)
  have other: "\<forall>q. q \<noteq> transcript_path p \<longrightarrow>
       files (transcribe_audio env p key w) q = files w q"
    by (intro allI impI transcribe_audio_files_other)
  have written: "fst (transcribe_body env p key w) = None \<longrightarrow>
      (\<exists>r text. transcribe_file env key p options = Inr r \<and> to_json env r = Inr text \<and>
         files (transcribe_audio env p key w) (transcript_path p) = Some text)"
  proof
    assume "fst (transcribe_body env p key w) = None"
    then obtain w' where b: "transcribe_body env p key w = (None, w')"
      by (cases "transcribe_body env p key w") simp
    then have "transcribe_audio env p key w = w'"
      by (simp add: transcribe_audio_def)
    with transcribe_body_success [OF b]
    show "\<exists>r text. transcribe_file env key p options = Inr r \<and> to_json env r = Inr text \<and>
         files (transcribe_audio env p key w) (transcript_path p) = Some text"
      by simp
  qed
  from with_ext without_ext path_shape [of p] whole tp other written
  show ?thesis by (intro conjI)
qed

theorem transcript_path_replaces_extension_witness:
  "suffix ''/'' ''./'' \<and> CHR ''/'' \<notin> set ''Test Clip'' \<and>
   (\<exists>c \<in> set ''Test Clip''. c \<noteq> CHR ''.'') \<and>
   CHR ''.'' \<notin> set ''wav'' \<and> CHR ''/'' \<notin> set ''wav'' \<and>
   transcript_path ''./Test Clip.wav'' = ''./Test Clip_transcript.json'' \<and>
   set ''.'' \<subseteq> {CHR ''.''} \<and> CHR ''.'' \<notin> set ''hidden'' \<and> CHR ''/'' \<notin> set ''hidden'' \<and>
   transcript_path ''./.hidden'' = ''./.hidden_transcript.json'' \<and>
   transcript_path ''/tmp/song.wav'' = ''/tmp/song_transcript.json'' \<and>
   transcript_path ''archive.tar.gz'' = ''archive.tar_transcript.json'' \<and>
   transcript_path ''/tmp.d/song'' = ''/tmp.d/song_transcript.json'' \<and>
   fst (transcribe_body (example_tenv (Inr ''{}'')) ''/tmp/song.wav'' ''key'' example_world) = None \<and>
   files (transcribe_audio (example_tenv (Inr ''{}'')) ''/tmp/song.wav'' ''key'' example_world)
     ''./Test Clip.wav'' = files example_world ''./Test Clip.wav'' \<and>
   (\<exists>r text. transcribe_file (example_tenv (Inr ''{}'')) ''key'' ''/tmp/song.wav'' options = Inr r \<and>
      to_json (example_tenv (Inr ''{}'')) r = Inr text \<and>
      files (transcribe_audio (example_tenv (Inr ''{}'')) ''/tmp/song.wav'' ''key'' example_world)
        ''/tmp/song_transcript.json'' = Some text)"
proof -
  note T = transcript_path_replaces_extension [where p = "''/tmp/song.wav''"
      and env = "example_tenv (Inr ''{}'')" and key = "''key''" and w = example_world]
  note with_ext = conjunct1 [OF T]
  note without_ext = conjunct1 [OF conjunct2 [OF T]]
  have s1: "suffix ''/'' ''./''" by (simp add: suffix_def)
  have s2: "suffix ''/'' ''/tmp/''" by (simp add: suffix_def)
  have s3: "suffix ''/'' ''/tmp.d/''" by (simp add: suffix_def)
  have a1: "CHR ''/'' \<notin> set ''Test Clip''" by simp
  have a2: "\<exists>c \<in> set ''Test Clip''. c \<noteq> CHR ''.''" by simp
  have a3: "CHR ''.'' \<notin> set ''wav''" by simp
  have a4: "CHR ''/'' \<notin> set ''wav''" by simp
  have b1: "set ''.'' \<subseteq> {CHR ''.''}" by simp
  have b2: "CHR ''.'' \<notin> set ''hidden''" by simp
  have b3: "CHR ''/'' \<notin> set ''hidden''" by simp
  have "transcript_path (''./'' @ ''Test Clip'' @ CHR ''.'' # ''wav'') =
      ''./'' @ ''Test Clip'' @ ''_transcript.json''"
    using s1 a1 a2 a3 a4
    by (intro mp [OF spec [OF spec [OF spec [OF with_ext]]]] conjI disjI2)
  then have r1: "transcript_path ''./Test Clip.wav'' = ''./Test Clip_transcript.json''"
    by simp
  have "transcript_path (''./'' @ ''.'' @ ''hidden'') =
      ''./'' @ ''.'' @ ''hidden'' @ ''_transcript.json''"
    using s1 b1 b2 b3
    by (intro mp [OF spec [OF spec [OF spec [OF without_ext]]]] conjI disjI2)
  then have r2: "transcript_path ''./.hidden'' = ''./.hidden_transcript.json''"
    by simp
  have "transcript_path (''/tmp/'' @ ''song'' @ CHR ''.'' # ''wav'') =
      ''/tmp/'' @ ''song'' @ ''_transcript.json''"
    by (intro mp [OF spec [OF spec [OF spec [OF with_ext]]]] conjI disjI2 s2) simp_all
  then have r3: "transcript_path ''/tmp/song.wav'' = ''/tmp/song_transcript.json''"
    by simp
  have "transcript_path ([] @ ''archive.tar'' @ CHR ''.'' # ''gz'') =
      [] @ ''archive.tar'' @ ''_transcript.json''"
    by (intro mp [OF spec [OF spec [OF spec [OF with_ext]]]] conjI disjI1 refl) simp_all
  then have r4: "transcript_path ''archive.tar.gz'' = ''archive.tar_transcript.json''"
    by simp
  have "transcript_path (''/tmp.d/'' @ [] @ ''song'') =
      ''/tmp.d/'' @ [] @ ''song'' @ ''_transcript.json''"
    by (intro mp [OF spec [OF spec [OF spec [OF without_ext]]]] conjI disjI2 s3) simp_all
  then have r5: "transcript_path ''/tmp.d/song'' = ''/tmp.d/song_transcript.json''"
    by simp
  have ok: "fst (transcribe_body (example_tenv (Inr ''{}'')) ''/tmp/song.wav'' ''key''
      example_world) = None"
    by (simp add: transcribe_body_def example_tenv_def Let_def)
  have ne: "''./Test Clip.wav'' \<noteq> transcript_path ''/tmp/song.wav''"
    unfolding r3 by simp
  note other = conjunct1 [OF conjunct2 [OF conjunct2 [OF conjunct2 [OF conjunct2
      [OF conjunct2 [OF T]]]]]]
  have o: "files (transcribe_audio (example_tenv (Inr ''{}'')) ''/tmp/song.wav'' ''key''
      example_world) ''./Test Clip.wav'' = files example_world ''./Test Clip.wav''"
    by (rule other [THEN spec, THEN mp, OF ne])
  have "fst (transcribe_body (example_tenv (Inr ''{}'')) ''/tmp/song.wav'' ''key''
      example_world) = None \<longrightarrow>
    (\<exists>r text. transcribe_file (example_tenv (Inr ''{}'')) ''key'' ''/tmp/song.wav'' options = Inr r \<and>
      to_json (example_tenv (Inr ''{}'')) r = Inr text \<and>
      files (transcribe_audio (example_tenv (Inr ''{}'')) ''/tmp/song.wav'' ''key'' example_world)
        (transcript_path ''/tmp/song.wav'') = Some text)"
    by (rule conjunct2 [OF conjunct2 [OF conjunct2 [OF conjunct2 [OF conjunct2
      [OF conjunct2 [OF T]]]]]])
  then have "\<exists>r text. transcribe_file (example_tenv (Inr ''{}'')) ''key'' ''/tmp/song.wav'' options = Inr r \<and>
      to_json (example_tenv (Inr ''{}'')) r = Inr text \<and>
      files (transcribe_audio (example_tenv (Inr ''{}'')) ''/tmp/song.wav'' ''key'' example_world)
        (transcript_path ''/tmp/song.wav'') = Some text"
    using ok by (rule mp)
  then have s: "\<exists>r text. transcribe_file (example_tenv (Inr ''{}'')) ''key'' ''/tmp/song.wav'' options = Inr r \<and>
      to_json (example_tenv (Inr ''{}'')) r = Inr text \<and>
      files (transcribe_audio (example_tenv (Inr ''{}'')) ''/tmp/song.wav'' ''key'' example_world)
        ''/tmp/song_transcript.json'' = Some text"
    unfolding r3 .
  from s1 a1 a2 a3 a4 r1 b1 b2 b3 r2 r3 r4 r5 ok o s show ?thesis by (intro conjI)
qed

text \<open>
  C5. With \<open>-t\<close> given and a fetch that passes the test of line 145 (a path that is
  neither \<open>None\<close> nor empty), when the credential is unset or empty, \<open>main\<close> adds to
  what the fetcher printed the value of the credential and the two lines that tell how to
  set it, and nothing else changes: no request is made and no file is touched, so the
  transcription is skipped and the downloaded file is left as it is.
\<close>

theorem missing_credential_skips_transcription:
  assumes "transcribe a"
    and "download_audio_from_youtube fenv (url a) (output a) (format_str (format a))
      (quality a) = (Some p, out)"
    and "p \<noteq> []"
    and "getenv ''DEEPGRAM_API_KEY'' = None \<or> getenv ''DEEPGRAM_API_KEY'' = Some []"
  shows "main a fenv tenv getenv w =
    w\<lparr>printed := printed w @ out @
      [str_of (getenv ''DEEPGRAM_API_KEY''),
       ''Error: DEEPGRAM_API_KEY environment variable is required for transcription.'',
       ''Please set it using: export DEEPGRAM_API_KEY='' @ [CHR 0x27] @ ''your-api-key'' @
         [CHR 0x27]]\<rparr>"
proof -
  from assms(4) have "\<not> truthy (getenv ''DEEPGRAM_API_KEY'')" by auto
  then show ?thesis
    unfolding main_fetched [OF assms(1,2,3)] by (simp add: print_def)
qed

theorem missing_credential_skips_transcription_witness:
  "transcribe example_args \<and>
   download_audio_from_youtube (example_env stdout_test_clip [''Test Clip.wav''] (\<lambda>_. 0))
     (url example_args) (output example_args) (format_str (format example_args))
     (quality example_args) =
     (Some ''./Test Clip.wav'',
      [''Downloading audio from: https://youtu.be/x'',
       ''Audio downloaded successfully to: ./Test Clip.wav'']) \<and>
   ''./Test Clip.wav'' \<noteq> [] \<and>
   no_credential ''DEEPGRAM_API_KEY'' = None \<and>
   main example_args (example_env stdout_test_clip [''Test Clip.wav''] (\<lambda>_. 0))
     (example_tenv (Inr ''{}'')) no_credential example_world =
     example_world\<lparr>printed :=
       [''Downloading audio from: https://youtu.be/x'',
        ''Audio downloaded successfully to: ./Test Clip.wav'',
        ''None'',
        ''Error: DEEPGRAM_API_KEY environment variable is required for transcription.'',
        ''Please set it using: export DEEPGRAM_API_KEY='' @ [CHR 0x27] @ ''your-api-key'' @
          [CHR 0x27]]\<rparr>"
proof -
  let ?env = "example_env stdout_test_clip [''Test Clip.wav''] (\<lambda>_. 0)"
  have h1: "transcribe example_args"
    by (simp add: example_args_def)
  have h2: "download_audio_from_youtube ?env (url example_args) (output example_args)
      (format_str (format example_args)) (quality example_args) =
     (Some ''./Test Clip.wav'',
      [''Downloading audio from: https://youtu.be/x'',
       ''Audio downloaded successfully to: ./Test Clip.wav''])"
    by code_simp
  have h3: "''./Test Clip.wav'' \<noteq> []"
    by simp
  have h4: "no_credential ''DEEPGRAM_API_KEY'' = None"
    by (simp add: no_credential_def)
  then have h4': "no_credential ''DEEPGRAM_API_KEY'' = None \<or>
      no_credential ''DEEPGRAM_API_KEY'' = Some []"
    by (rule disjI1)
  have "main example_args ?env (example_tenv (Inr ''{}'')) no_credential example_world =
     example_world\<lparr>printed := printed example_world @
       [''Downloading audio from: https://youtu.be/x'',
        ''Audio downloaded successfully to: ./Test Clip.wav''] @
       [str_of (no_credential ''DEEPGRAM_API_KEY''),
        ''Error: DEEPGRAM_API_KEY environment variable is required for transcription.'',
        ''Please set it using: export DEEPGRAM_API_KEY='' @ [CHR 0x27] @ ''your-api-key'' @
          [CHR 0x27]]\<rparr>"
    by (rule missing_credential_skips_transcription
        [where getenv = no_credential, OF h1 h2 h3 h4'])
  then have m: "main example_args ?env (example_tenv (Inr ''{}'')) no_credential example_world =
     example_world\<lparr>printed :=
       [''Downloading audio from: https://youtu.be/x'',
        ''Audio downloaded successfully to: ./Test Clip.wav'',
        ''None'',
        ''Error: DEEPGRAM_API_KEY environment variable is required for transcription.'',
        ''Please set it using: export DEEPGRAM_API_KEY='' @ [CHR 0x27] @ ''your-api-key'' @
          [CHR 0x27]]\<rparr>"
    by (simp add: h4 example_world_def)
  from h1 h2 h3 h4 m show ?thesis by (intro conjI)
qed

text \<open>
  C6. When the transcription fails before the transcript is opened for writing (the
  client cannot be made, the audio file cannot be opened, the request raises, as for a
  network or an authentication error, or the response cannot be turned into JSON), the last
  line printed reports the error, no file is changed, so no transcript is written, not even
  in part, and at most one request has been made.
\<close>

theorem failed_transcription_writes_nothing:
  assumes "new_client env key = Some e \<or>
     (new_client env key = None \<and> open_rb env p = Some e) \<or>
     (new_client env key = None \<and> open_rb env p = None \<and>
        (transcribe_file env key p options = Inl e \<or>
         (\<exists>r. transcribe_file env key p options = Inr r \<and> to_json env r = Inl e)))"
  shows "files (transcribe_audio env p key w) = files w \<and>
     requests (transcribe_audio env p key w) \<le> requests w + 1 \<and>
     (\<exists>mid. printed (transcribe_audio env p key w) =
        printed w @ mid @ [''Error during transcription: '' @ exn_str e])"
proof -
  from assms show ?thesis
  proof (elim disjE conjE exE, goal_cases client audio request json)
    case client
    then have "transcribe_audio env p key w =
        print (''Error during transcription: '' @ exn_str e) w"
      by (simp add: transcribe_audio_def transcribe_body_def)
    then show ?thesis
      by (simp add: print_def exI [of _ "[]"])
  next
    case audio
    then have "transcribe_audio env p key w =
        print (''Error during transcription: '' @ exn_str e) w"
      by (simp add: transcribe_audio_def transcribe_body_def)
    then show ?thesis
      by (simp add: print_def exI [of _ "[]"])
  next
    case request
    then have "transcribe_audio env p key w =
        print (''Error during transcription: '' @ exn_str e) (w\<lparr>requests := requests w + 1\<rparr>)"
      by (simp add: transcribe_audio_def transcribe_body_def)
    then show ?thesis
      by (simp add: print_def exI [of _ "[]"])
  next
    case (json r)
    then have "transcribe_audio env p key w =
        print (''Error during transcription: '' @ exn_str e)
          (print (CHR 0x0A # ''Transcription Results:'') (w\<lparr>requests := requests w + 1\<rparr>))"
      by (simp add: transcribe_audio_def transcribe_body_def Let_def)
    then show ?thesis
      by (simp add: print_def exI [of _ "[CHR 0x0A # ''Transcription Results:'']"])
  qed
qed

theorem failed_transcription_writes_nothing_witness:
  "new_client (example_tenv (Inl (OtherException ''401 Unauthorized''))) ''key'' = None \<and>
   open_rb (example_tenv (Inl (OtherException ''401 Unauthorized''))) ''./Test Clip.wav'' = None \<and>
   transcribe_file (example_tenv (Inl (OtherException ''401 Unauthorized''))) ''key''
     ''./Test Clip.wav'' options = Inl (OtherException ''401 Unauthorized'') \<and>
   files (transcribe_audio (example_tenv (Inl (OtherException ''401 Unauthorized'')))
     ''./Test Clip.wav'' ''key'' example_world) = files example_world \<and>
   requests (transcribe_audio (example_tenv (Inl (OtherException ''401 Unauthorized'')))
     ''./Test Clip.wav'' ''key'' example_world) \<le> requests example_world + 1 \<and>
   (\<exists>mid. printed (transcribe_audio (example_tenv (Inl (OtherException ''401 Unauthorized'')))
     ''./Test Clip.wav'' ''key'' example_world) =
      printed example_world @ mid @
        [''Error during transcription: '' @ exn_str (OtherException ''401 Unauthorized'')]) \<and>
   printed (transcribe_audio (example_tenv (Inl (OtherException ''401 Unauthorized'')))
     ''./Test Clip.wav'' ''key'' example_world) =
     [''Error during transcription: 401 Unauthorized'']"
proof -
  let ?env = "example_tenv (Inl (OtherException ''401 Unauthorized''))"
  have h1: "new_client ?env ''key'' = None"
    by (simp add: example_tenv_def)
  have h2: "open_rb ?env ''./Test Clip.wav'' = None"
    by (simp add: example_tenv_def)
  have h3: "transcribe_file ?env ''key'' ''./Test Clip.wav'' options =
      Inl (OtherException ''401 Unauthorized'')"
    by (simp add: example_tenv_def)
  from h1 h2 h3 have h: "new_client ?env ''key'' = Some (OtherException ''401 Unauthorized'') \<or>
     (new_client ?env ''key'' = None \<and>
      open_rb ?env ''./Test Clip.wav'' = Some (OtherException ''401 Unauthorized'')) \<or>
     (new_client ?env ''key'' = None \<and> open_rb ?env ''./Test Clip.wav'' = None \<and>
        (transcribe_file ?env ''key'' ''./Test Clip.wav'' options =
           Inl (OtherException ''401 Unauthorized'') \<or>
         (\<exists>r. transcribe_file ?env ''key'' ''./Test Clip.wav'' options = Inr r \<and>
            to_json ?env r = Inl (OtherException ''401 Unauthorized''))))"
    by (intro disjI2 conjI disjI1)
  note c = failed_transcription_writes_nothing [OF h, where w = example_world]
  have v: "printed (transcribe_audio ?env ''./Test Clip.wav'' ''key'' example_world) =
     [''Error during transcription: 401 Unauthorized'']"
    by (simp add: transcribe_audio_def transcribe_body_def example_tenv_def example_world_def
        print_def)
  from c have c1: "files (transcribe_audio ?env ''./Test Clip.wav'' ''key'' example_world) =
      files example_world"
    by (rule conjunct1)
  from c have c2: "requests (transcribe_audio ?env ''./Test Clip.wav'' ''key'' example_world) \<le>
      requests example_world + 1"
    by (rule conjunct1 [OF conjunct2])
  from c have c3: "\<exists>mid. printed (transcribe_audio ?env ''./Test Clip.wav'' ''key''
      example_world) = printed example_world @ mid @
        [''Error during transcription: '' @ exn_str (OtherException ''401 Unauthorized'')]"
    by (rule conjunct2 [OF conjunct2])
  from h1 h2 h3 c1 c2 c3 v show ?thesis by (intro conjI)
qed

text \<open>
  C7. No exception leaves a stage. A non-zero exit status of the downloader makes
  \<open>download_audio_from_youtube\<close> return \<open>None\<close> after printing the error and the captured
  error output; a file that cannot be found makes it return \<open>None\<close> after printing that;
  and whatever exception the body of its \<open>try\<close> raises, it returns \<open>None\<close> and adds at
  least one line to what was printed. Whatever exception the body of the \<open>try\<close> of
  \<open>transcribe_audio\<close> raises, the function returns after printing the error.
\<close>

theorem failures_do_not_propagate:
  "(makedirs env d = None \<and> run env (command u d fmt q) = Inl (CalledProcessError msg err) \<longrightarrow>
      download_audio_from_youtube env u d fmt q =
        (None, [''Downloading audio from: '' @ u, ''Error running yt-dlp: '' @ msg,
                ''Error output: '' @ err])) \<and>
   (makedirs env d = None \<and> run env (command u d fmt q) = Inr stdout \<and>
    find (is_destination_line fmt) (py_split stdout [CHR 0x0A]) = None \<and>
    listdir env d = Inr names \<and> filter (suffix (''.'' @ fmt)) names = [] \<longrightarrow>
      download_audio_from_youtube env u d fmt q =
        (None, [''Downloading audio from: '' @ u,
                ''Error downloading audio: '' @
                  (''Could not find downloaded audio file with format '' @ fmt)])) \<and>
   (\<forall>e out. download_body env u d fmt q = (Inl e, out) \<longrightarrow>
      fst (download_audio_from_youtube env u d fmt q) = None \<and>
      (\<exists>msgs. msgs \<noteq> [] \<and> snd (download_audio_from_youtube env u d fmt q) = out @ msgs)) \<and>
   (\<forall>e w'. transcribe_body tenv p key w = (Some e, w') \<longrightarrow>
      transcribe_audio tenv p key w =
        print (''Error during transcription: '' @ exn_str e) w')"
proof (intro conjI allI impI)
  assume "makedirs env d = None \<and> run env (command u d fmt q) = Inl (CalledProcessError msg err)"
  then show "download_audio_from_youtube env u d fmt q =
        (None, [''Downloading audio from: '' @ u, ''Error running yt-dlp: '' @ msg,
                ''Error output: '' @ err])"
    by (elim conjE) (rule download_called_process_error)
next
  assume "makedirs env d = None \<and> run env (command u d fmt q) = Inr stdout \<and>
    find (is_destination_line fmt) (py_split stdout [CHR 0x0A]) = None \<and>
    listdir env d = Inr names \<and> filter (suffix (''.'' @ fmt)) names = []"
  then show "download_audio_from_youtube env u d fmt q =
        (None, [''Downloading audio from: '' @ u,
                ''Error downloading audio: '' @
                  (''Could not find downloaded audio file with format '' @ fmt)])"
    by (elim conjE) (rule download_no_file)
next
  fix e out
  assume "download_body env u d fmt q = (Inl e, out)"
  then show "fst (download_audio_from_youtube env u d fmt q) = None"
    by (rule download_body_caught [THEN conjunct1])
next
  fix e out
  assume "download_body env u d fmt q = (Inl e, out)"
  then show "\<exists>msgs. msgs \<noteq> [] \<and> snd (download_audio_from_youtube env u d fmt q) = out @ msgs"
    by (rule download_body_caught [THEN conjunct2])
next
  fix e w'
  assume "transcribe_body tenv p key w = (Some e, w')"
  then show "transcribe_audio tenv p key w =
        print (''Error during transcription: '' @ exn_str e) w'"
    by (rule transcribe_body_caught)
qed

theorem failures_do_not_propagate_witness:
  "makedirs failing_env ''./'' = None \<and>
   run failing_env (command ''https://youtu.be/x'' ''./'' ''wav'' ''0'') =
     Inl (CalledProcessError ''Command returned non-zero exit status 1.''
            ''ERROR: Video unavailable'') \<and>
   download_audio_from_youtube failing_env ''https://youtu.be/x'' ''./'' ''wav'' ''0'' =
     (None, [''Downloading audio from: https://youtu.be/x'',
             ''Error running yt-dlp: Command returned non-zero exit status 1.'',
             ''Error output: ERROR: Video unavailable'']) \<and>
   makedirs (example_env stdout_no_destination [''notes.txt''] mtime_by_path) ''./'' = None \<and>
   run (example_env stdout_no_destination [''notes.txt''] mtime_by_path)
     (command ''https://youtu.be/x'' ''./'' ''wav'' ''0'') = Inr stdout_no_destination \<and>
   find (is_destination_line ''wav'') (py_split stdout_no_destination [CHR 0x0A]) = None \<and>
   listdir (example_env stdout_no_destination [''notes.txt''] mtime_by_path) ''./'' =
     Inr [''notes.txt''] \<and>
   filter (suffix (''.'' @ ''wav'')) [''notes.txt''] = [] \<and>
   download_audio_from_youtube (example_env stdout_no_destination [''notes.txt''] mtime_by_path)
     ''https://youtu.be/x'' ''./'' ''wav'' ''0'' =
     (None, [''Downloading audio from: https://youtu.be/x'',
             ''Error downloading audio: Could not find downloaded audio file with format wav'']) \<and>
   download_body failing_env ''https://youtu.be/x'' ''./'' ''wav'' ''0'' =
     (Inl (CalledProcessError ''Command returned non-zero exit status 1.''
             ''ERROR: Video unavailable''),
      [''Downloading audio from: https://youtu.be/x'']) \<and>
   fst (download_audio_from_youtube failing_env ''https://youtu.be/x'' ''./'' ''wav'' ''0'') =
     None \<and>
   (\<exists>msgs. msgs \<noteq> [] \<and>
      snd (download_audio_from_youtube failing_env ''https://youtu.be/x'' ''./'' ''wav'' ''0'') =
      [''Downloading audio from: https://youtu.be/x''] @ msgs) \<and>
   transcribe_body (example_tenv (Inl (OtherException ''401 Unauthorized'')))
     ''./Test Clip.wav'' ''key'' example_world =
     (Some (OtherException ''401 Unauthorized''), example_world\<lparr>requests := 1\<rparr>) \<and>
   transcribe_audio (example_tenv (Inl (OtherException ''401 Unauthorized'')))
     ''./Test Clip.wav'' ''key'' example_world =
     print (''Error during transcription: '' @ exn_str (OtherException ''401 Unauthorized''))
       (example_world\<lparr>requests := 1\<rparr>)"
proof -
  let ?env = "example_env stdout_no_destination [''notes.txt''] mtime_by_path"
  let ?tenv = "example_tenv (Inl (OtherException ''401 Unauthorized''))"
  let ?e = "CalledProcessError ''Command returned non-zero exit status 1.''
      ''ERROR: Video unavailable''"
  have a1: "makedirs failing_env ''./'' = None"
    by (simp add: failing_env_def)
  have a2: "run failing_env (command ''https://youtu.be/x'' ''./'' ''wav'' ''0'') = Inl ?e"
    by (simp add: failing_env_def)
  have b1: "makedirs ?env ''./'' = None"
    by (simp add: example_env_def)
  have b2: "run ?env (command ''https://youtu.be/x'' ''./'' ''wav'' ''0'') =
      Inr stdout_no_destination"
    by (simp add: example_env_def)
  have b3: "find (is_destination_line ''wav'') (py_split stdout_no_destination [CHR 0x0A]) = None"
    by code_simp
  have b4: "listdir ?env ''./'' = Inr [''notes.txt'']"
    by (simp add: example_env_def)
  have b5: "filter (suffix (''.'' @ ''wav'')) [''notes.txt''] = []"
    by code_simp
  have c1: "download_body failing_env ''https://youtu.be/x'' ''./'' ''wav'' ''0'' =
      (Inl ?e, [''Downloading audio from: https://youtu.be/x''])"
    by (simp add: download_body_def failing_env_def)
  have d1: "transcribe_body ?tenv ''./Test Clip.wav'' ''key'' example_world =
      (Some (OtherException ''401 Unauthorized''), example_world\<lparr>requests := 1\<rparr>)"
    by (simp add: transcribe_body_def example_tenv_def example_world_def)
  note A = failures_do_not_propagate [where env = failing_env and d = "''./''"
      and u = "''https://youtu.be/x''" and fmt = "''wav''" and q = "''0''"
      and msg = "''Command returned non-zero exit status 1.''"
      and err = "''ERROR: Video unavailable''"
      and stdout = "[]" and names = "[]"
      and tenv = ?tenv and p = "''./Test Clip.wav''" and key = "''key''"
      and w = example_world]
  note B = failures_do_not_propagate [where env = ?env and d = "''./''"
      and u = "''https://youtu.be/x''" and fmt = "''wav''" and q = "''0''"
      and stdout = stdout_no_destination and names = "[''notes.txt'']"
      and msg = "[]" and err = "[]"
      and tenv = ?tenv and p = "''./Test Clip.wav''" and key = "''key''"
      and w = example_world]
  from A have "makedirs failing_env ''./'' = None \<and>
      run failing_env (command ''https://youtu.be/x'' ''./'' ''wav'' ''0'') = Inl ?e \<longrightarrow>
      download_audio_from_youtube failing_env ''https://youtu.be/x'' ''./'' ''wav'' ''0'' =
        (None, [''Downloading audio from: '' @ ''https://youtu.be/x'',
                ''Error running yt-dlp: '' @ ''Command returned non-zero exit status 1.'',
                ''Error output: '' @ ''ERROR: Video unavailable''])"
    by (rule conjunct1)
  with a1 a2 have r1: "download_audio_from_youtube failing_env ''https://youtu.be/x'' ''./''
      ''wav'' ''0'' =
     (None, [''Downloading audio from: https://youtu.be/x'',
             ''Error running yt-dlp: Command returned non-zero exit status 1.'',
             ''Error output: ERROR: Video unavailable''])"
    by simp
  from B have "makedirs ?env ''./'' = None \<and>
      run ?env (command ''https://youtu.be/x'' ''./'' ''wav'' ''0'') = Inr stdout_no_destination \<and>
      find (is_destination_line ''wav'') (py_split stdout_no_destination [CHR 0x0A]) = None \<and>
      listdir ?env ''./'' = Inr [''notes.txt''] \<and>
      filter (suffix (''.'' @ ''wav'')) [''notes.txt''] = [] \<longrightarrow>
      download_audio_from_youtube ?env ''https://youtu.be/x'' ''./'' ''wav'' ''0'' =
        (None, [''Downloading audio from: '' @ ''https://youtu.be/x'',
                ''Error downloading audio: '' @
                  (''Could not find downloaded audio file with format '' @ ''wav'')])"
    by (rule conjunct1 [OF conjunct2])
  with b1 b2 b3 b4 b5 have r2: "download_audio_from_youtube ?env ''https://youtu.be/x'' ''./''
      ''wav'' ''0'' =
     (None, [''Downloading audio from: https://youtu.be/x'',
             ''Error downloading audio: Could not find downloaded audio file with format wav''])"
    by simp
  from A have "\<forall>e out. download_body failing_env ''https://youtu.be/x'' ''./'' ''wav'' ''0'' =
      (Inl e, out) \<longrightarrow>
      fst (download_audio_from_youtube failing_env ''https://youtu.be/x'' ''./'' ''wav'' ''0'') =
        None \<and>
      (\<exists>msgs. msgs \<noteq> [] \<and>
        snd (download_audio_from_youtube failing_env ''https://youtu.be/x'' ''./'' ''wav'' ''0'') =
        out @ msgs)"
    by (rule conjunct1 [OF conjunct2 [OF conjunct2]])
  with c1 have r3: "fst (download_audio_from_youtube failing_env ''https://youtu.be/x'' ''./''
      ''wav'' ''0'') = None \<and>
      (\<exists>msgs. msgs \<noteq> [] \<and>
        snd (download_audio_from_youtube failing_env ''https://youtu.be/x'' ''./'' ''wav'' ''0'') =
        [''Downloading audio from: https://youtu.be/x''] @ msgs)"
    by blast
  from A have "\<forall>e w'. transcribe_body ?tenv ''./Test Clip.wav'' ''key'' example_world =
      (Some e, w') \<longrightarrow>
      transcribe_audio ?tenv ''./Test Clip.wav'' ''key'' example_world =
        print (''Error during transcription: '' @ exn_str e) w'"
    by (rule conjunct2 [OF conjunct2 [OF conjunct2]])
  with d1 have r4: "transcribe_audio ?tenv ''./Test Clip.wav'' ''key'' example_world =
     print (''Error during transcription: '' @ exn_str (OtherException ''401 Unauthorized''))
       (example_world\<lparr>requests := 1\<rparr>)"
    by blast
  from r3 have r3a: "fst (download_audio_from_youtube failing_env ''https://youtu.be/x'' ''./''
      ''wav'' ''0'') = None"
    by (rule conjunct1)
  from r3 have r3b: "\<exists>msgs. msgs \<noteq> [] \<and>
        snd (download_audio_from_youtube failing_env ''https://youtu.be/x'' ''./'' ''wav'' ''0'') =
        [''Downloading audio from: https://youtu.be/x''] @ msgs"
    by (rule conjunct2)
  from a1 a2 r1 b1 b2 b3 b4 b5 r2 c1 r3a r3b d1 r4 show ?thesis by (intro conjI)
qed

text \<open>
  C8. When the first destination line of the downloader's output holds its marker but not
  the marker followed by a space (the dedicated marker on a line that passes the first test,
  the generic one otherwise), \<open>[1]\<close> raises IndexError at that line, the generic handler
  catches it, and \<open>download_audio_from_youtube\<close> returns \<open>None\<close> after printing the text
  of the IndexError, whatever the output directory holds.
\<close>

theorem marker_without_separator:
  assumes "makedirs env d = None" and "run env (command u d fmt q) = Inr stdout"
    and "find (is_destination_line fmt) (py_split stdout [CHR 0x0A]) = Some line"
    and "if is_extract_line line then \<not> sublist ''[ExtractAudio] Destination: '' line
         else \<not> sublist ''Destination: '' line"
  shows "download_audio_from_youtube env u d fmt q =
    (None, [''Downloading audio from: '' @ u,
            ''Error downloading audio: list index out of range''])"
proof -
  have "is_destination_line fmt line"
    using assms(3) by (auto simp: find_Some_iff)
  then have "visit_line fmt line = Some (Inl IndexError)"
    using assms(4)
    by (auto simp: visit_line_def is_destination_line_def index1_no_sep split: if_splits)
  then have "scan_lines fmt (py_split stdout [CHR 0x0A]) = Some (Inl IndexError)"
    using assms(3) by (simp add: scan_lines_find)
  with assms(1,2) show ?thesis by (rule download_raise)
qed

theorem marker_without_separator_witness:
  "makedirs (example_env stdout_generic_no_space [''a.wav''] (\<lambda>_. 0)) ''./'' = None \<and>
   run (example_env stdout_generic_no_space [''a.wav''] (\<lambda>_. 0))
     (command ''https://youtu.be/x'' ''./'' ''wav'' ''0'') = Inr stdout_generic_no_space \<and>
   find (is_destination_line ''wav'') (py_split stdout_generic_no_space [CHR 0x0A]) =
     Some line_generic_no_space \<and>
   sublist ''Destination:'' line_generic_no_space \<and>
   \<not> is_extract_line line_generic_no_space \<and>
   \<not> sublist ''Destination: '' line_generic_no_space \<and>
   download_audio_from_youtube (example_env stdout_generic_no_space [''a.wav''] (\<lambda>_. 0))
     ''https://youtu.be/x'' ''./'' ''wav'' ''0'' =
   (None, [''Downloading audio from: https://youtu.be/x'',
           ''Error downloading audio: list index out of range''])"
proof -
  let ?env = "example_env stdout_generic_no_space [''a.wav''] (\<lambda>_. 0)"
  have h1: "makedirs ?env ''./'' = None"
    by (simp add: example_env_def)
  have h2: "run ?env (command ''https://youtu.be/x'' ''./'' ''wav'' ''0'') =
      Inr stdout_generic_no_space"
    by (simp add: example_env_def)
  have h3: "find (is_destination_line ''wav'') (py_split stdout_generic_no_space [CHR 0x0A]) =
      Some line_generic_no_space"
    by code_simp
  have h4: "sublist ''Destination:'' line_generic_no_space"
    by code_simp
  have h5: "\<not> is_extract_line line_generic_no_space"
    by code_simp
  have h6: "\<not> sublist ''Destination: '' line_generic_no_space"
    by code_simp
  have h7: "if is_extract_line line_generic_no_space
      then \<not> sublist ''[ExtractAudio] Destination: '' line_generic_no_space
      else \<not> sublist ''Destination: '' line_generic_no_space"
    using h5 h6 by simp
  have "download_audio_from_youtube ?env ''https://youtu.be/x'' ''./'' ''wav'' ''0'' =
    (None, [''Downloading audio from: '' @ ''https://youtu.be/x'',
            ''Error downloading audio: list index out of range''])"
    by (rule marker_without_separator [OF h1 h2 h3 h7])
  then have h8: "download_audio_from_youtube ?env ''https://youtu.be/x'' ''./'' ''wav'' ''0'' =
    (None, [''Downloading audio from: https://youtu.be/x'',
            ''Error downloading audio: list index out of range''])"
    by simp
  from h1 h2 h3 h4 h5 h6 h8 show ?thesis by blast
qed

text \<open>
  C9. With \<open>-t\<close> given and a fetch that passes the test of line 145, the first thing
  \<open>main\<close> prints after the fetcher's lines is the value of the credential (\<open>None\<close> when
  it is unset), before the credential is tested and whatever the test gives.
\<close>

theorem credential_is_printed:
  assumes "transcribe a"
    and "download_audio_from_youtube fenv (url a) (output a) (format_str (format a))
      (quality a) = (Some p, out)"
    and "p \<noteq> []"
  shows "\<exists>rest. printed (main a fenv tenv getenv w) =
    printed w @ out @ str_of (getenv ''DEEPGRAM_API_KEY'') # rest"
proof (cases "truthy (getenv ''DEEPGRAM_API_KEY'')")
  case False
  then have "printed (main a fenv tenv getenv w) =
    printed w @ out @ str_of (getenv ''DEEPGRAM_API_KEY'') #
      [''Error: DEEPGRAM_API_KEY environment variable is required for transcription.'',
       ''Please set it using: export DEEPGRAM_API_KEY='' @ [CHR 0x27] @ ''your-api-key'' @
         [CHR 0x27]]"
    unfolding main_fetched [OF assms] by (simp add: print_def)
  then show ?thesis by (rule exI)
next
  case True
  let ?w2 = "print (str_of (getenv ''DEEPGRAM_API_KEY'')) (w\<lparr>printed := printed w @ out\<rparr>)"
  from True have m: "main a fenv tenv getenv w =
      transcribe_audio tenv p (the (getenv ''DEEPGRAM_API_KEY'')) ?w2"
    unfolding main_fetched [OF assms] by simp
  obtain rest where "printed (transcribe_audio tenv p (the (getenv ''DEEPGRAM_API_KEY'')) ?w2) =
      printed ?w2 @ rest"
    using transcribe_audio_printed by blast
  with m have "printed (main a fenv tenv getenv w) =
      printed w @ out @ str_of (getenv ''DEEPGRAM_API_KEY'') # rest"
    by (simp add: print_def)
  then show ?thesis by (rule exI)
qed

theorem credential_is_printed_witness:
  "transcribe example_args \<and>
   download_audio_from_youtube (example_env stdout_test_clip [''Test Clip.wav''] (\<lambda>_. 0))
     (url example_args) (output example_args) (format_str (format example_args))
     (quality example_args) =
     (Some ''./Test Clip.wav'',
      [''Downloading audio from: https://youtu.be/x'',
       ''Audio downloaded successfully to: ./Test Clip.wav'']) \<and>
   ''./Test Clip.wav'' \<noteq> [] \<and>
   with_credential ''DEEPGRAM_API_KEY'' = Some ''secret-key'' \<and>
   (\<exists>rest. printed (main example_args
       (example_env stdout_test_clip [''Test Clip.wav''] (\<lambda>_. 0))
       (example_tenv (Inr ''{}'')) with_credential example_world) =
     [''Downloading audio from: https://youtu.be/x'',
      ''Audio downloaded successfully to: ./Test Clip.wav'',
      ''secret-key''] @ rest)"
proof -
  let ?env = "example_env stdout_test_clip [''Test Clip.wav''] (\<lambda>_. 0)"
  have h1: "transcribe example_args"
    by (simp add: example_args_def)
  have h2: "download_audio_from_youtube ?env (url example_args) (output example_args)
      (format_str (format example_args)) (quality example_args) =
     (Some ''./Test Clip.wav'',
      [''Downloading audio from: https://youtu.be/x'',
       ''Audio downloaded successfully to: ./Test Clip.wav''])"
    by code_simp
  have h3: "''./Test Clip.wav'' \<noteq> []"
    by simp
  have h4: "with_credential ''DEEPGRAM_API_KEY'' = Some ''secret-key''"
    by (simp add: with_credential_def)
  from credential_is_printed [where getenv = with_credential
      and tenv = "example_tenv (Inr ''{}'')" and w = example_world, OF h1 h2 h3]
  obtain rest where "printed (main example_args ?env (example_tenv (Inr ''{}''))
      with_credential example_world) =
    printed example_world @
      [''Downloading audio from: https://youtu.be/x'',
       ''Audio downloaded successfully to: ./Test Clip.wav''] @
      str_of (with_credential ''DEEPGRAM_API_KEY'') # rest"
    by (elim exE)
  then have "printed (main example_args ?env (example_tenv (Inr ''{}''))
      with_credential example_world) =
     [''Downloading audio from: https://youtu.be/x'',
      ''Audio downloaded successfully to: ./Test Clip.wav'',
      ''secret-key''] @ rest"
    by (simp add: h4 example_world_def)
  then have c: "\<exists>rest. printed (main example_args ?env (example_tenv (Inr ''{}''))
      with_credential example_world) =
     [''Downloading audio from: https://youtu.be/x'',
      ''Audio downloaded successfully to: ./Test Clip.wav'',
      ''secret-key''] @ rest"
    by (rule exI)
  from h1 h2 h3 h4 c show ?thesis by (intro conjI)
qed

text \<open>
  C10. A path found by the scan of the output directory is the output directory joined
  with a name that the directory listing holds and that ends with a dot and the format. A
  path found on a destination line is the stripped text between the first and the second
  occurrence of the marker followed by a space on that line, a part of the downloader's
  output as it stands; the function returns it whatever the directory listing and the
  modification times are, so nothing checks that the file exists, where it lies or how its
  name ends.
\<close>

theorem resolved_path_origin:
  "(makedirs env d = None \<and> run env (command u d fmt q) = Inr stdout \<and>
    find (is_destination_line fmt) (py_split stdout [CHR 0x0A]) = None \<and>
    fst (download_audio_from_youtube env u d fmt q) = Some p \<longrightarrow>
      (\<exists>names f. listdir env d = Inr names \<and> f \<in> set names \<and> suffix (''.'' @ fmt) f \<and>
         p = path_join d f)) \<and>
   (makedirs env d = None \<and> run env (command u d fmt q) = Inr stdout \<and>
    find (is_destination_line fmt) (py_split stdout [CHR 0x0A]) = Some line \<and>
    fst (download_audio_from_youtube env u d fmt q) = Some p \<longrightarrow>
      (\<exists>a b rest.
         py_split line (if is_extract_line line then ''[ExtractAudio] Destination: ''
                        else ''Destination: '') = a # b # rest \<and> p = strip b) \<and>
      sublist p stdout \<and>
      (\<forall>l g. fst (download_audio_from_youtube (env\<lparr>listdir := l, getmtime := g\<rparr>) u d fmt q) =
         Some p))"
proof (rule conjI; rule impI)
  assume "makedirs env d = None \<and> run env (command u d fmt q) = Inr stdout \<and>
    find (is_destination_line fmt) (py_split stdout [CHR 0x0A]) = None \<and>
    fst (download_audio_from_youtube env u d fmt q) = Some p"
  then show "\<exists>names f. listdir env d = Inr names \<and> f \<in> set names \<and>
      suffix (''.'' @ fmt) f \<and> p = path_join d f"
    by (elim conjE) (rule fallback_path_in_directory)
next
  assume "makedirs env d = None \<and> run env (command u d fmt q) = Inr stdout \<and>
    find (is_destination_line fmt) (py_split stdout [CHR 0x0A]) = Some line \<and>
    fst (download_audio_from_youtube env u d fmt q) = Some p"
  then show "(\<exists>a b rest.
         py_split line (if is_extract_line line then ''[ExtractAudio] Destination: ''
                        else ''Destination: '') = a # b # rest \<and> p = strip b) \<and>
      sublist p stdout \<and>
      (\<forall>l g. fst (download_audio_from_youtube (env\<lparr>listdir := l, getmtime := g\<rparr>) u d fmt q) =
         Some p)"
    by (elim conjE) (rule destination_path_verbatim)
qed

theorem resolved_path_origin_witness:
  "makedirs (example_env stdout_no_destination names_mixed mtime_by_path) ''./'' = None \<and>
   run (example_env stdout_no_destination names_mixed mtime_by_path)
     (command ''https://youtu.be/x'' ''./'' ''wav'' ''0'') = Inr stdout_no_destination \<and>
   find (is_destination_line ''wav'') (py_split stdout_no_destination [CHR 0x0A]) = None \<and>
   fst (download_audio_from_youtube (example_env stdout_no_destination names_mixed mtime_by_path)
     ''https://youtu.be/x'' ''./'' ''wav'' ''0'') = Some ''./new.wav'' \<and>
   (\<exists>names f. listdir (example_env stdout_no_destination names_mixed mtime_by_path) ''./'' =
        Inr names \<and> f \<in> set names \<and> suffix (''.'' @ ''wav'') f \<and>
      ''./new.wav'' = path_join ''./'' f) \<and>
   makedirs (example_env stdout_elsewhere [] (\<lambda>_. 0)) ''./'' = None \<and>
   run (example_env stdout_elsewhere [] (\<lambda>_. 0))
     (command ''https://youtu.be/x'' ''./'' ''wav'' ''0'') = Inr stdout_elsewhere \<and>
   find (is_destination_line ''wav'') (py_split stdout_elsewhere [CHR 0x0A]) =
     Some line_elsewhere \<and>
   listdir (example_env stdout_elsewhere [] (\<lambda>_. 0)) ''./'' = Inr [] \<and>
   fst (download_audio_from_youtube (example_env stdout_elsewhere [] (\<lambda>_. 0))
     ''https://youtu.be/x'' ''./'' ''wav'' ''0'') = Some ''/elsewhere/song.mp3'' \<and>
   (\<exists>a b rest.
      py_split line_elsewhere (if is_extract_line line_elsewhere
        then ''[ExtractAudio] Destination: '' else ''Destination: '') = a # b # rest \<and>
      ''/elsewhere/song.mp3'' = strip b) \<and>
   sublist ''/elsewhere/song.mp3'' stdout_elsewhere \<and>
   (\<forall>l (g :: pystr \<Rightarrow> exn + int).
      fst (download_audio_from_youtube
        ((example_env stdout_elsewhere [] (\<lambda>_. 0))\<lparr>listdir := l, getmtime := g\<rparr>)
        ''https://youtu.be/x'' ''./'' ''wav'' ''0'') = Some ''/elsewhere/song.mp3'')"
proof -
  let ?env1 = "example_env stdout_no_destination names_mixed mtime_by_path"
  let ?env2 = "example_env stdout_elsewhere [] (\<lambda>_. 0)"
  have a1: "makedirs ?env1 ''./'' = None"
    by (simp add: example_env_def)
  have a2: "run ?env1 (command ''https://youtu.be/x'' ''./'' ''wav'' ''0'') =
      Inr stdout_no_destination"
    by (simp add: example_env_def)
  have a3: "find (is_destination_line ''wav'') (py_split stdout_no_destination [CHR 0x0A]) = None"
    by code_simp
  have a4: "fst (download_audio_from_youtube ?env1 ''https://youtu.be/x'' ''./'' ''wav'' ''0'') =
      Some ''./new.wav''"
    by code_simp
  have b1: "makedirs ?env2 ''./'' = None"
    by (simp add: example_env_def)
  have b2: "run ?env2 (command ''https://youtu.be/x'' ''./'' ''wav'' ''0'') = Inr stdout_elsewhere"
    by (simp add: example_env_def)
  have b3: "find (is_destination_line ''wav'') (py_split stdout_elsewhere [CHR 0x0A]) =
      Some line_elsewhere"
    by code_simp
  have b4: "fst (download_audio_from_youtube ?env2 ''https://youtu.be/x'' ''./'' ''wav'' ''0'') =
      Some ''/elsewhere/song.mp3''"
    by code_simp
  have b5: "listdir ?env2 ''./'' = Inr []"
    by (simp add: example_env_def)
  from a1 a2 a3 a4 have A: "makedirs ?env1 ''./'' = None \<and>
      run ?env1 (command ''https://youtu.be/x'' ''./'' ''wav'' ''0'') = Inr stdout_no_destination \<and>
      find (is_destination_line ''wav'') (py_split stdout_no_destination [CHR 0x0A]) = None \<and>
      fst (download_audio_from_youtube ?env1 ''https://youtu.be/x'' ''./'' ''wav'' ''0'') =
        Some ''./new.wav''"
    by (intro conjI)
  have r1: "\<exists>names f. listdir ?env1 ''./'' = Inr names \<and> f \<in> set names \<and>
         suffix (''.'' @ ''wav'') f \<and> ''./new.wav'' = path_join ''./'' f"
    by (rule mp [OF conjunct1 [OF resolved_path_origin] A])
  from b1 b2 b3 b4 have B: "makedirs ?env2 ''./'' = None \<and>
      run ?env2 (command ''https://youtu.be/x'' ''./'' ''wav'' ''0'') = Inr stdout_elsewhere \<and>
      find (is_destination_line ''wav'') (py_split stdout_elsewhere [CHR 0x0A]) =
        Some line_elsewhere \<and>
      fst (download_audio_from_youtube ?env2 ''https://youtu.be/x'' ''./'' ''wav'' ''0'') =
        Some ''/elsewhere/song.mp3''"
    by (intro conjI)
  have r2: "(\<exists>a b rest.
         py_split line_elsewhere (if is_extract_line line_elsewhere
           then ''[ExtractAudio] Destination: '' else ''Destination: '') = a # b # rest \<and>
         ''/elsewhere/song.mp3'' = strip b) \<and>
      sublist ''/elsewhere/song.mp3'' stdout_elsewhere \<and>
      (\<forall>l (g :: pystr \<Rightarrow> exn + int).
         fst (download_audio_from_youtube (?env2\<lparr>listdir := l, getmtime := g\<rparr>)
           ''https://youtu.be/x'' ''./'' ''wav'' ''0'') = Some ''/elsewhere/song.mp3'')"
    by (rule mp [OF conjunct2 [OF resolved_path_origin] B])
  from r2 have r2a: "\<exists>a b rest.
         py_split line_elsewhere (if is_extract_line line_elsewhere
           then ''[ExtractAudio] Destination: '' else ''Destination: '') = a # b # rest \<and>
         ''/elsewhere/song.mp3'' = strip b"
    by (rule conjunct1)
  from r2 have r2b: "sublist ''/elsewhere/song.mp3'' stdout_elsewhere"
    by (rule conjunct1 [OF conjunct2])
  from r2 have r2c: "\<forall>l (g :: pystr \<Rightarrow> exn + int).
         fst (download_audio_from_youtube (?env2\<lparr>listdir := l, getmtime := g\<rparr>)
           ''https://youtu.be/x'' ''./'' ''wav'' ''0'') = Some ''/elsewhere/song.mp3''"
    by (rule conjunct2 [OF conjunct2])
  from a1 a2 a3 a4 r1 b1 b2 b3 b5 b4 r2a r2b r2c show ?thesis by (intro conjI)
qed

end
